theory Spec2Isabelle
  imports Complex_Main "HOL-Library.Sublist"
begin

section \<open>The snapshot contract (backend/app/models/system_health.py)\<close>

text \<open>
  Every class of the module is a pydantic \<^verbatim>\<open>BaseModel\<close>: a list of typed fields, some
  with the bounds \<^verbatim>\<open>Field(ge=..., le=...)\<close>. A class is modelled as a record of its
  annotated fields, in the order of the source, and as the predicate
  \<open>validate_C\<close> that holds of a record exactly when constructing the model from these
  values succeeds; where it is false, pydantic raises \<^verbatim>\<open>ValidationError\<close>.

  The candidate values are typed as the annotations say: \<^verbatim>\<open>int\<close> is \<open>int\<close>,
  \<^verbatim>\<open>float\<close> is \<open>real\<close>, \<^verbatim>\<open>str\<close> is \<open>string\<close>, \<^verbatim>\<open>Optional[T]\<close> is
  \<open>T option\<close> (\<open>None\<close> for an absent value), \<^verbatim>\<open>List[T]\<close> is \<open>T list\<close>, a
  \<^verbatim>\<open>datetime\<close> is its number of microseconds since the epoch. A field of a
  \<^verbatim>\<open>Literal[...]\<close> type holds a string, which validation compares with the listed
  members. A field with a default holds the value after defaulting.
\<close>

type_synonym datetime = int

text \<open>\<^verbatim>\<open>Field(ge=bound)\<close> and \<^verbatim>\<open>Field(le=bound)\<close>, and both on one field.\<close>

definition ge :: "'a::ord \<Rightarrow> 'a \<Rightarrow> bool" where
  "ge bound v = (bound \<le> v)"

definition le :: "'a::ord \<Rightarrow> 'a \<Rightarrow> bool" where
  "le bound v = (v \<le> bound)"

definition both :: "('a \<Rightarrow> bool) \<Rightarrow> ('a \<Rightarrow> bool) \<Rightarrow> 'a \<Rightarrow> bool" where
  "both p q v = (p v \<and> q v)"

text \<open>\<^verbatim>\<open>Optional[T]\<close>: \<^verbatim>\<open>None\<close> is accepted, a value is validated as a \<^verbatim>\<open>T\<close>.\<close>

fun optional :: "('a \<Rightarrow> bool) \<Rightarrow> 'a option \<Rightarrow> bool" where
  "optional p None = True"
| "optional p (Some v) = p v"

text \<open>\<^verbatim>\<open>Literal[...]\<close>: the value is one of the listed strings.\<close>

definition literal :: "string list \<Rightarrow> string \<Rightarrow> bool" where
  "literal members v = (v \<in> set members)"

text \<open>The closed sets of strings of the \<^verbatim>\<open>Literal\<close> aliases.\<close>

definition Severity :: "string list" where
  "Severity =
     [''info'', ''warning'', ''error'', ''critical'']"

definition ServiceState :: "string list" where
  "ServiceState =
     [''running'', ''stopped'', ''paused'', ''failed'', ''unknown'']"

definition FirewallState :: "string list" where
  "FirewallState =
     [''enabled'', ''disabled'', ''unknown'']"

definition AVState :: "string list" where
  "AVState =
     [''healthy'', ''out_of_date'', ''disabled'', ''unknown'']"

definition OSType :: "string list" where
  "OSType =
     [''windows'', ''linux'', ''macos'', ''bsd'', ''unknown'']"

definition IFaceType :: "string list" where
  "IFaceType =
     [''ethernet'', ''wifi'', ''loopback'', ''virtual'', ''cellular'', ''unknown'']"

definition Protocol :: "string list" where
  "Protocol =
     [''tcp'', ''udp'', ''icmp'', ''other'']"

definition FilesystemType :: "string list" where
  "FilesystemType =
     [''ntfs'', ''fat32'', ''exfat'', ''ext4'', ''xfs'', ''apfs'', ''btrfs'',
      ''zfs'', ''other'']"

text \<open>\<^verbatim>\<open>class Percent\<close>: Represents a percentage contrained to 0-100.\<close>

record Percent =
  value' :: "real"

definition validate_Percent :: "Percent \<Rightarrow> bool" where
  "validate_Percent m =
     (both (ge 0) (le 100) (Percent.value' m))"

text \<open>\<^verbatim>\<open>class CPUCoreUsage\<close>: Per-logical-core usage snapshot.\<close>

record CPUCoreUsage =
  core_index :: "int"
  usage_pct :: "real"

definition validate_CPUCoreUsage :: "CPUCoreUsage \<Rightarrow> bool" where
  "validate_CPUCoreUsage m =
     (ge 0 (CPUCoreUsage.core_index m) \<and>
      both (ge 0) (le 100) (CPUCoreUsage.usage_pct m))"

text \<open>\<^verbatim>\<open>class CPUFrequency\<close>: Instantaneous and capability clock speeds.\<close>

record CPUFrequency =
  current_mhz :: "real option"
  min_mhz :: "real option"
  max_mhz :: "real option"
  turbo_mhz :: "real option"

definition validate_CPUFrequency :: "CPUFrequency \<Rightarrow> bool" where
  "validate_CPUFrequency m =
     (optional (ge 0) (CPUFrequency.current_mhz m) \<and>
      optional (ge 0) (CPUFrequency.min_mhz m) \<and>
      optional (ge 0) (CPUFrequency.max_mhz m) \<and>
      optional (ge 0) (CPUFrequency.turbo_mhz m))"

text \<open>\<^verbatim>\<open>class CPUTemperature\<close>: Thermal data for CPU package and cores.\<close>

record CPUTemperature =
  package_c :: "real option"
  per_core_c :: "((real option) list) option"
  hotspot_c :: "real option"

definition validate_CPUTemperature :: "CPUTemperature \<Rightarrow> bool" where
  "validate_CPUTemperature m =
     (True)"

text \<open>\<^verbatim>\<open>class CPUThrottleStatus\<close>: Whether the CPU is throttling and why.\<close>

record CPUThrottleStatus =
  is_throttling :: "bool"
  reason :: "string option"

definition validate_CPUThrottleStatus :: "CPUThrottleStatus \<Rightarrow> bool" where
  "validate_CPUThrottleStatus m =
     (optional (literal [''thermal'', ''power'', ''current'', ''other'']) (CPUThrottleStatus.reason m))"

text \<open>\<^verbatim>\<open>class CPUPower\<close>: Package power telementary.\<close>

record CPUPower =
  watts :: "real option"
  voltage_v :: "real option"

definition validate_CPUPower :: "CPUPower \<Rightarrow> bool" where
  "validate_CPUPower m =
     (optional (ge 0) (CPUPower.watts m) \<and>
      optional (ge 0) (CPUPower.voltage_v m))"

text \<open>\<^verbatim>\<open>class CPULoadAverages\<close>: Lunix-style moving averages of runnable tasks.\<close>

record CPULoadAverages =
  over_1m :: "real option"
  over_5m :: "real option"
  over_15m :: "real option"

definition validate_CPULoadAverages :: "CPULoadAverages \<Rightarrow> bool" where
  "validate_CPULoadAverages m =
     (optional (ge 0) (CPULoadAverages.over_1m m) \<and>
      optional (ge 0) (CPULoadAverages.over_5m m) \<and>
      optional (ge 0) (CPULoadAverages.over_15m m))"

text \<open>\<^verbatim>\<open>class TopCPUProcess\<close>: Top consumer rows for the Proccesses table.\<close>

record TopCPUProcess =
  pid :: "int"
  name :: "string"
  cpu_pct :: "real"
  user_time_s :: "real option"
  system_time_s :: "real option"

definition validate_TopCPUProcess :: "TopCPUProcess \<Rightarrow> bool" where
  "validate_TopCPUProcess m =
     (both (ge 0) (le 100) (TopCPUProcess.cpu_pct m) \<and>
      optional (ge 0) (TopCPUProcess.user_time_s m) \<and>
      optional (ge 0) (TopCPUProcess.system_time_s m))"

text \<open>\<^verbatim>\<open>class CPUModel\<close>: Aggregate CPU panel.\<close>

record CPUModel =
  timestamp :: "datetime"
  sample_interval_s :: "real option"
  physical_cores :: "int option"
  locial_cores :: "int option"
  usage_total_pct :: "real"
  per_core :: "(CPUCoreUsage list) option"
  frequency :: "CPUFrequency option"
  temperature :: "CPUTemperature option"
  throttle :: "CPUThrottleStatus option"
  power :: "CPUPower option"
  load_avg :: "CPULoadAverages option"
  context_switches_per_sec :: "real option"
  interrupts_per_sec :: "real option"
  top_processes :: "(TopCPUProcess list) option"

definition validate_CPUModel :: "CPUModel \<Rightarrow> bool" where
  "validate_CPUModel m =
     (optional (ge 0) (CPUModel.sample_interval_s m) \<and>
      optional (ge 1) (CPUModel.physical_cores m) \<and>
      optional (ge 1) (CPUModel.locial_cores m) \<and>
      both (ge 0) (le 100) (CPUModel.usage_total_pct m) \<and>
      optional (list_all validate_CPUCoreUsage) (CPUModel.per_core m) \<and>
      optional validate_CPUFrequency (CPUModel.frequency m) \<and>
      optional validate_CPUTemperature (CPUModel.temperature m) \<and>
      optional validate_CPUThrottleStatus (CPUModel.throttle m) \<and>
      optional validate_CPUPower (CPUModel.power m) \<and>
      optional validate_CPULoadAverages (CPUModel.load_avg m) \<and>
      optional (ge 0) (CPUModel.context_switches_per_sec m) \<and>
      optional (ge 0) (CPUModel.interrupts_per_sec m) \<and>
      optional (list_all validate_TopCPUProcess) (CPUModel.top_processes m))"

text \<open>\<^verbatim>\<open>class SwapStats\<close>: Virtual memory backing store statistics.\<close>

record SwapStats =
  total_bytes :: "int"
  used_bytes :: "int"
  usage_pct :: "real option"
  swap_in_per_sec :: "real option"
  swap_out_per_sec :: "real option"

definition validate_SwapStats :: "SwapStats \<Rightarrow> bool" where
  "validate_SwapStats m =
     (ge 0 (SwapStats.total_bytes m) \<and>
      ge 0 (SwapStats.used_bytes m) \<and>
      optional (both (ge 0) (le 100)) (SwapStats.usage_pct m) \<and>
      optional (ge 0) (SwapStats.swap_in_per_sec m) \<and>
      optional (ge 0) (SwapStats.swap_out_per_sec m))"

text \<open>\<^verbatim>\<open>class PressureStatus\<close>: Unified memory pressure indicator.\<close>

record PressureStatus =
  instant :: "string option"
  score :: "real option"

definition validate_PressureStatus :: "PressureStatus \<Rightarrow> bool" where
  "validate_PressureStatus m =
     (optional (literal [''normal'', ''elevated'', ''critical'']) (PressureStatus.instant m) \<and>
      optional (ge 0) (PressureStatus.score m))"

text \<open>\<^verbatim>\<open>class FaultStats\<close>: Demand paging activity.\<close>

record FaultStats =
  soft_per_sec :: "real option"
  hard_per_sec :: "real option"

definition validate_FaultStats :: "FaultStats \<Rightarrow> bool" where
  "validate_FaultStats m =
     (optional (ge 0) (FaultStats.soft_per_sec m) \<and>
      optional (ge 0) (FaultStats.hard_per_sec m))"

text \<open>\<^verbatim>\<open>class WindowsRAMExtras\<close>: Platform specific breakdown (Optional).\<close>

record WindowsRAMExtras =
  commit_bytes :: "real option"
  commit_limit_bytes :: "int option"
  paged_pool_bytes :: "int option"
  nonpaged_pool_bytes :: "int option"

definition validate_WindowsRAMExtras :: "WindowsRAMExtras \<Rightarrow> bool" where
  "validate_WindowsRAMExtras m =
     (optional (ge 0) (WindowsRAMExtras.commit_bytes m) \<and>
      optional (ge 0) (WindowsRAMExtras.commit_limit_bytes m) \<and>
      optional (ge 0) (WindowsRAMExtras.paged_pool_bytes m) \<and>
      optional (ge 0) (WindowsRAMExtras.nonpaged_pool_bytes m))"

text \<open>\<^verbatim>\<open>class LinuxRAMExtras\<close>: Platform specific breakdown (Optional).\<close>

record LinuxRAMExtras =
  buffers_bytes :: "int option"
  slab_bytes :: "int option"
  psi_mem_some :: "real option"
  psi_mem_full :: "real option"
  thp_enabled :: "bool option"
  zswap_in_use_bytes :: "int option"
  zram_in_use_bytes :: "int option"

definition validate_LinuxRAMExtras :: "LinuxRAMExtras \<Rightarrow> bool" where
  "validate_LinuxRAMExtras m =
     (optional (ge 0) (LinuxRAMExtras.buffers_bytes m) \<and>
      optional (ge 0) (LinuxRAMExtras.slab_bytes m) \<and>
      optional (ge 0) (LinuxRAMExtras.psi_mem_some m) \<and>
      optional (ge 0) (LinuxRAMExtras.psi_mem_full m) \<and>
      optional (ge 0) (LinuxRAMExtras.zswap_in_use_bytes m) \<and>
      optional (ge 0) (LinuxRAMExtras.zram_in_use_bytes m))"

text \<open>\<^verbatim>\<open>class MacOSRAMExtras\<close>: Platform specific breakdown (Optional).\<close>

record MacOSRAMExtras =
  wired_bytes :: "int option"

definition validate_MacOSRAMExtras :: "MacOSRAMExtras \<Rightarrow> bool" where
  "validate_MacOSRAMExtras m =
     (optional (ge 0) (MacOSRAMExtras.wired_bytes m))"

text \<open>\<^verbatim>\<open>class PlatformRAMExtras\<close>: Platform specific breakdown (Optional).\<close>

record PlatformRAMExtras =
  windows :: "WindowsRAMExtras option"
  linux :: "LinuxRAMExtras option"
  macos :: "MacOSRAMExtras option"

definition validate_PlatformRAMExtras :: "PlatformRAMExtras \<Rightarrow> bool" where
  "validate_PlatformRAMExtras m =
     (optional validate_WindowsRAMExtras (PlatformRAMExtras.windows m) \<and>
      optional validate_LinuxRAMExtras (PlatformRAMExtras.linux m) \<and>
      optional validate_MacOSRAMExtras (PlatformRAMExtras.macos m))"

text \<open>\<^verbatim>\<open>class TopMemoryProcess\<close>: Per-process memory heavy hitters.\<close>

record TopMemoryProcess =
  pid :: "int"
  name :: "string"
  rss_bytes :: "int"
  share_pct :: "real option"
  hard_faults_per_sec :: "real option"

definition validate_TopMemoryProcess :: "TopMemoryProcess \<Rightarrow> bool" where
  "validate_TopMemoryProcess m =
     (ge 0 (TopMemoryProcess.rss_bytes m) \<and>
      optional (both (ge 0) (le 100)) (TopMemoryProcess.share_pct m) \<and>
      optional (ge 0) (TopMemoryProcess.hard_faults_per_sec m))"

text \<open>\<^verbatim>\<open>class RAMModel\<close>: Aggregate memory panel.\<close>

record RAMModel =
  timestamp :: "datetime"
  sample_interval_s :: "real option"
  total_bytes :: "int"
  used_effective_bytes :: "int"
  available_bytes :: "int"
  usage_pct :: "real"
  cache_bytes :: "int option"
  kernal_bytes :: "int option"
  compressed_bytes :: "int option"
  swap :: "SwapStats option"
  pressure :: "PressureStatus option"
  faults :: "FaultStats option"
  platform :: "PlatformRAMExtras option"
  top_processes :: "(TopMemoryProcess list) option"

definition validate_RAMModel :: "RAMModel \<Rightarrow> bool" where
  "validate_RAMModel m =
     (optional (ge 0) (RAMModel.sample_interval_s m) \<and>
      ge 0 (RAMModel.total_bytes m) \<and>
      ge 0 (RAMModel.used_effective_bytes m) \<and>
      ge 0 (RAMModel.available_bytes m) \<and>
      both (ge 0) (le 100) (RAMModel.usage_pct m) \<and>
      optional (ge 0) (RAMModel.cache_bytes m) \<and>
      optional (ge 0) (RAMModel.kernal_bytes m) \<and>
      optional (ge 0) (RAMModel.compressed_bytes m) \<and>
      optional validate_SwapStats (RAMModel.swap m) \<and>
      optional validate_PressureStatus (RAMModel.pressure m) \<and>
      optional validate_FaultStats (RAMModel.faults m) \<and>
      optional validate_PlatformRAMExtras (RAMModel.platform m) \<and>
      optional (list_all validate_TopMemoryProcess) (RAMModel.top_processes m))"

text \<open>\<^verbatim>\<open>class DiskPartition\<close>: Logical volume/partition status.\<close>

record DiskPartition =
  device :: "string"
  mount_point :: "string"
  fs_type :: "string"
  total_bytes :: "int"
  used_bytes :: "int"
  free_bytes :: "int"
  usage_pct :: "real option"
  read_only :: "bool option"

definition validate_DiskPartition :: "DiskPartition \<Rightarrow> bool" where
  "validate_DiskPartition m =
     (literal FilesystemType (DiskPartition.fs_type m) \<and>
      ge 0 (DiskPartition.total_bytes m) \<and>
      ge 0 (DiskPartition.used_bytes m) \<and>
      ge 0 (DiskPartition.free_bytes m) \<and>
      optional (both (ge 0) (le 100)) (DiskPartition.usage_pct m))"

text \<open>\<^verbatim>\<open>class DiskIOStats\<close>: Throughput and IOPS per device.\<close>

record DiskIOStats =
  device :: "string"
  read_bytes_per_sec :: "real option"
  write_bytes_per_sec :: "real option"
  read_iops :: "real option"
  write_iops :: "real option"
  avg_read_ms :: "real option"
  avg_write_ms :: "real option"

definition validate_DiskIOStats :: "DiskIOStats \<Rightarrow> bool" where
  "validate_DiskIOStats m =
     (optional (ge 0) (DiskIOStats.read_bytes_per_sec m) \<and>
      optional (ge 0) (DiskIOStats.write_bytes_per_sec m) \<and>
      optional (ge 0) (DiskIOStats.read_iops m) \<and>
      optional (ge 0) (DiskIOStats.write_iops m) \<and>
      optional (ge 0) (DiskIOStats.avg_read_ms m) \<and>
      optional (ge 0) (DiskIOStats.avg_write_ms m))"

text \<open>\<^verbatim>\<open>class SmartAttribute\<close>: SMART datum from storage device.\<close>

record SmartAttribute =
  id' :: "int option"
  name :: "string"
  value' :: "real option"
  worst :: "real option"
  threshold :: "real option"
  raw :: "string option"
  failed :: "bool option"

definition validate_SmartAttribute :: "SmartAttribute \<Rightarrow> bool" where
  "validate_SmartAttribute m =
     (True)"

text \<open>\<^verbatim>\<open>class DiskHealth\<close>: Condensed health info per disk.\<close>

record DiskHealth =
  device :: "string"
  smart_overall_pass :: "bool option"
  temperature_c :: "real option"
  attributes :: "(SmartAttribute list) option"

definition validate_DiskHealth :: "DiskHealth \<Rightarrow> bool" where
  "validate_DiskHealth m =
     (optional (list_all validate_SmartAttribute) (DiskHealth.attributes m))"

text \<open>\<^verbatim>\<open>class StorageModel\<close>: Aggregate storage model.\<close>

record StorageModel =
  timestamp :: "datetime"
  partitions :: "DiskPartition list"
  io :: "(DiskIOStats list) option"
  health :: "(DiskHealth list) option"

definition validate_StorageModel :: "StorageModel \<Rightarrow> bool" where
  "validate_StorageModel m =
     (list_all validate_DiskPartition (StorageModel.partitions m) \<and>
      optional (list_all validate_DiskIOStats) (StorageModel.io m) \<and>
      optional (list_all validate_DiskHealth) (StorageModel.health m))"

text \<open>\<^verbatim>\<open>class AddressInfo\<close>: Assigned addresses.\<close>

record AddressInfo =
  ipv4 :: "string option"
  ipv6 :: "string option"
  mac :: "string option"

definition validate_AddressInfo :: "AddressInfo \<Rightarrow> bool" where
  "validate_AddressInfo m =
     (True)"

text \<open>\<^verbatim>\<open>class InterfaceCounters\<close>: Rate metrics (per second).\<close>

record InterfaceCounters =
  bytes_sent_per_sec :: "real option"
  bytes_recv_per_sec :: "real option"
  packets_sent_per_sec :: "real option"
  packets_recv_per_sec :: "real option"
  err_in_per_sec :: "real option"
  err_out_per_sec :: "real option"
  drop_in_per_sec :: "real option"
  drop_out_per_sec :: "real option"

definition validate_InterfaceCounters :: "InterfaceCounters \<Rightarrow> bool" where
  "validate_InterfaceCounters m =
     (optional (ge 0) (InterfaceCounters.bytes_sent_per_sec m) \<and>
      optional (ge 0) (InterfaceCounters.bytes_recv_per_sec m) \<and>
      optional (ge 0) (InterfaceCounters.packets_sent_per_sec m) \<and>
      optional (ge 0) (InterfaceCounters.packets_recv_per_sec m) \<and>
      optional (ge 0) (InterfaceCounters.err_in_per_sec m) \<and>
      optional (ge 0) (InterfaceCounters.err_out_per_sec m) \<and>
      optional (ge 0) (InterfaceCounters.drop_in_per_sec m) \<and>
      optional (ge 0) (InterfaceCounters.drop_out_per_sec m))"

text \<open>\<^verbatim>\<open>class NetworkInterface\<close>: Interface card configuration and status.
  The class body also holds \<^verbatim>\<open>addresses = AddressInfo\<close>, an assignment with no type
  annotation: it declares no field, so nothing is validated for it.\<close>

record NetworkInterface =
  name :: "string"
  type :: "string"
  is_up :: "bool"
  speed_mbps :: "real option"
  duplex :: "string option"
  mtu :: "int option"
  counters :: "InterfaceCounters option"

definition validate_NetworkInterface :: "NetworkInterface \<Rightarrow> bool" where
  "validate_NetworkInterface m =
     (literal IFaceType (NetworkInterface.type m) \<and>
      optional (ge 0) (NetworkInterface.speed_mbps m) \<and>
      optional (literal [''full'', ''half'', ''unknown'']) (NetworkInterface.duplex m) \<and>
      optional (ge 0) (NetworkInterface.mtu m) \<and>
      optional validate_InterfaceCounters (NetworkInterface.counters m))"

text \<open>\<^verbatim>\<open>class ConnectionStat\<close>: Socket table sample.\<close>

record ConnectionStat =
  protocol :: "string"
  local_addr :: "(string \<times> int) option"
  remote_addr :: "(string \<times> int) option"
  status :: "string option"
  pid :: "int option"

definition validate_ConnectionStat :: "ConnectionStat \<Rightarrow> bool" where
  "validate_ConnectionStat m =
     (literal Protocol (ConnectionStat.protocol m))"

text \<open>\<^verbatim>\<open>class LatencyProbe\<close>: Simple synthetic check to key hosts.\<close>

record LatencyProbe =
  name :: "string"
  target :: "string"
  rtt_ms :: "real option"
  packet_loss_pct :: "real option"

definition validate_LatencyProbe :: "LatencyProbe \<Rightarrow> bool" where
  "validate_LatencyProbe m =
     (optional (ge 0) (LatencyProbe.rtt_ms m) \<and>
      optional (both (ge 0) (le 100)) (LatencyProbe.packet_loss_pct m))"

text \<open>\<^verbatim>\<open>class NetworkModel\<close>: Aggregate Network Model.\<close>

record NetworkModel =
  timestamp :: "datetime"
  interfaces :: "NetworkInterface list"
  connections_sample :: "(ConnectionStat list) option"
  probes :: "(LatencyProbe list) option"

definition validate_NetworkModel :: "NetworkModel \<Rightarrow> bool" where
  "validate_NetworkModel m =
     (list_all validate_NetworkInterface (NetworkModel.interfaces m) \<and>
      optional (list_all validate_ConnectionStat) (NetworkModel.connections_sample m) \<and>
      optional (list_all validate_LatencyProbe) (NetworkModel.probes m))"

text \<open>\<^verbatim>\<open>class TempSensorReading\<close>: Sensor temperature.\<close>

record TempSensorReading =
  name :: "string"
  temperature_c :: "real option"

definition validate_TempSensorReading :: "TempSensorReading \<Rightarrow> bool" where
  "validate_TempSensorReading m =
     (True)"

text \<open>\<^verbatim>\<open>class FanReading\<close>: Fan reading.\<close>

record FanReading =
  name :: "string"
  rpm :: "int option"

definition validate_FanReading :: "FanReading \<Rightarrow> bool" where
  "validate_FanReading m =
     (optional (ge 0) (FanReading.rpm m))"

text \<open>\<^verbatim>\<open>class BatteryStatus\<close>: Protable power status.\<close>

record BatteryStatus =
  present :: "bool"
  percent :: "real option"
  charge_watts :: "real option"
  discharge_watts :: "real option"
  is_charging :: "bool option"
  cycles :: "int option"
  health_pct :: "real option"
  design_capacity_wh :: "real option"
  full_charge_capacity_wh :: "real option"

definition validate_BatteryStatus :: "BatteryStatus \<Rightarrow> bool" where
  "validate_BatteryStatus m =
     (optional (both (ge 0) (le 100)) (BatteryStatus.percent m) \<and>
      optional (ge 0) (BatteryStatus.charge_watts m) \<and>
      optional (ge 0) (BatteryStatus.discharge_watts m) \<and>
      optional (ge 0) (BatteryStatus.cycles m) \<and>
      optional (ge 0) (BatteryStatus.health_pct m) \<and>
      optional (ge 0) (BatteryStatus.design_capacity_wh m) \<and>
      optional (ge 0) (BatteryStatus.full_charge_capacity_wh m))"

text \<open>\<^verbatim>\<open>class GPUProcess\<close>: Per-process GPU usage row.\<close>

record GPUProcess =
  pid :: "int"
  name :: "string"
  gpu_util_pct :: "real option"
  vram_bytes :: "int option"

definition validate_GPUProcess :: "GPUProcess \<Rightarrow> bool" where
  "validate_GPUProcess m =
     (optional (both (ge 0) (le 100)) (GPUProcess.gpu_util_pct m) \<and>
      optional (ge 0) (GPUProcess.vram_bytes m))"

text \<open>\<^verbatim>\<open>class GPUModel\<close>: GPU device panel.\<close>

record GPUModel =
  name :: "string"
  vendor :: "string option"
  driver_version :: "string option"
  usage_pct :: "real option"
  vram_total_bytes :: "int option"
  vram_used_bytes :: "int option"
  temperature_c :: "real option"
  power_watts :: "real option"
  processes :: "(GPUProcess list) option"

definition validate_GPUModel :: "GPUModel \<Rightarrow> bool" where
  "validate_GPUModel m =
     (optional (both (ge 0) (le 100)) (GPUModel.usage_pct m) \<and>
      optional (ge 0) (GPUModel.vram_total_bytes m) \<and>
      optional (ge 0) (GPUModel.vram_used_bytes m) \<and>
      optional (ge 0) (GPUModel.power_watts m) \<and>
      optional (list_all validate_GPUProcess) (GPUModel.processes m))"

text \<open>\<^verbatim>\<open>class HardwareHealthModel\<close>: Hardware Health Model.\<close>

record HardwareHealthModel =
  timestamp :: "datetime"
  temperatures :: "(TempSensorReading list) option"
  fans :: "(FanReading list) option"
  battery :: "BatteryStatus option"
  gpus :: "(GPUModel list) option"

definition validate_HardwareHealthModel :: "HardwareHealthModel \<Rightarrow> bool" where
  "validate_HardwareHealthModel m =
     (optional (list_all validate_TempSensorReading) (HardwareHealthModel.temperatures m) \<and>
      optional (list_all validate_FanReading) (HardwareHealthModel.fans m) \<and>
      optional validate_BatteryStatus (HardwareHealthModel.battery m) \<and>
      optional (list_all validate_GPUModel) (HardwareHealthModel.gpus m))"

text \<open>\<^verbatim>\<open>class TopIOProcess\<close>: Top process.\<close>

record TopIOProcess =
  pid :: "int"
  name :: "string"
  read_bytes_per_sec :: "real option"
  write_bytes_per_sec :: "real option"

definition validate_TopIOProcess :: "TopIOProcess \<Rightarrow> bool" where
  "validate_TopIOProcess m =
     (optional (ge 0) (TopIOProcess.read_bytes_per_sec m) \<and>
      optional (ge 0) (TopIOProcess.write_bytes_per_sec m))"

text \<open>\<^verbatim>\<open>class ProcessSnapshot\<close>: System process state aggregate.\<close>

record ProcessSnapshot =
  total_processes :: "int option"
  runnning :: "int option"
  sleeping :: "int option"
  stopped :: "int option"
  zombies :: "int option"
  top_cpu :: "(TopCPUProcess list) option"
  top_mem :: "(TopMemoryProcess list) option"
  top_io :: "(TopIOProcess list) option"

definition validate_ProcessSnapshot :: "ProcessSnapshot \<Rightarrow> bool" where
  "validate_ProcessSnapshot m =
     (optional (ge 0) (ProcessSnapshot.total_processes m) \<and>
      optional (ge 0) (ProcessSnapshot.runnning m) \<and>
      optional (ge 0) (ProcessSnapshot.sleeping m) \<and>
      optional (ge 0) (ProcessSnapshot.stopped m) \<and>
      optional (ge 0) (ProcessSnapshot.zombies m) \<and>
      optional (list_all validate_TopCPUProcess) (ProcessSnapshot.top_cpu m) \<and>
      optional (list_all validate_TopMemoryProcess) (ProcessSnapshot.top_mem m) \<and>
      optional (list_all validate_TopIOProcess) (ProcessSnapshot.top_io m))"

text \<open>\<^verbatim>\<open>class ServiceStatus\<close>: Sercice status.\<close>

record ServiceStatus =
  name :: "string"
  state :: "string"
  uptime_s :: "real option"
  restart_count :: "int option"

definition validate_ServiceStatus :: "ServiceStatus \<Rightarrow> bool" where
  "validate_ServiceStatus m =
     (literal ServiceState (ServiceStatus.state m) \<and>
      optional (ge 0) (ServiceStatus.uptime_s m) \<and>
      optional (ge 0) (ServiceStatus.restart_count m))"

text \<open>\<^verbatim>\<open>class ServicesModel\<close>: Services Model.\<close>

record ServicesModel =
  timestamp :: "datetime"
  critical :: "(ServiceStatus list) option"
  others :: "(ServiceStatus list) option"

definition validate_ServicesModel :: "ServicesModel \<Rightarrow> bool" where
  "validate_ServicesModel m =
     (optional (list_all validate_ServiceStatus) (ServicesModel.critical m) \<and>
      optional (list_all validate_ServiceStatus) (ServicesModel.others m))"

text \<open>\<^verbatim>\<open>class BootInfo\<close>: Boot information.\<close>

record BootInfo =
  last_boot_time :: "datetime option"
  uptime_s :: "real option"
  previous_boot_times :: "(datetime list) option"

definition validate_BootInfo :: "BootInfo \<Rightarrow> bool" where
  "validate_BootInfo m =
     (optional (ge 0) (BootInfo.uptime_s m))"

text \<open>\<^verbatim>\<open>class LogEvent\<close>: Normalized log/event entry.\<close>

record LogEvent =
  time :: "datetime"
  source :: "string"
  severity :: "string"
  code :: "string option"
  message :: "string"
  count :: "int option"

definition validate_LogEvent :: "LogEvent \<Rightarrow> bool" where
  "validate_LogEvent m =
     (literal Severity (LogEvent.severity m) \<and>
      optional (ge 1) (LogEvent.count m))"

text \<open>\<^verbatim>\<open>class LogsModel\<close>: Logs Model.\<close>

record LogsModel =
  timestamp :: "datetime"
  recent_critical :: "(LogEvent list) option"
  recent_warnings :: "(LogEvent list) option"

definition validate_LogsModel :: "LogsModel \<Rightarrow> bool" where
  "validate_LogsModel m =
     (optional (list_all validate_LogEvent) (LogsModel.recent_critical m) \<and>
      optional (list_all validate_LogEvent) (LogsModel.recent_warnings m))"

text \<open>\<^verbatim>\<open>class CrashRecord\<close>: Crash/BSOD/panic entry.\<close>

record CrashRecord =
  time :: "datetime"
  component :: "string"
  type :: "string"
  exit_code :: "string option"
  dump_path :: "string option"

definition validate_CrashRecord :: "CrashRecord \<Rightarrow> bool" where
  "validate_CrashRecord m =
     (literal [''app_crash'', ''driver_fault'', ''kernal_panic'', ''bsod'', ''other''] (CrashRecord.type m))"

text \<open>\<^verbatim>\<open>class CrashMonitorModel\<close>: Crash Monitor Model.\<close>

record CrashMonitorModel =
  timestamp :: "datetime"
  recent :: "(CrashRecord list) option"

definition validate_CrashMonitorModel :: "CrashMonitorModel \<Rightarrow> bool" where
  "validate_CrashMonitorModel m =
     (optional (list_all validate_CrashRecord) (CrashMonitorModel.recent m))"

text \<open>\<^verbatim>\<open>class SecurityFinding\<close>: Security finding.\<close>

record SecurityFinding =
  time :: "datetime"
  tite :: "string"
  severity :: "string"
  details :: "string option"

definition validate_SecurityFinding :: "SecurityFinding \<Rightarrow> bool" where
  "validate_SecurityFinding m =
     (literal Severity (SecurityFinding.severity m))"

text \<open>\<^verbatim>\<open>class SecurityModel\<close>: Endpoint protection posture.\<close>

record SecurityModel =
  timestamp :: "datetime"
  firewall :: "string"
  av :: "string"
  av_definitions_age_days :: "real option"
  suspicious_processes :: "(int list) option"
  findings :: "(SecurityFinding list) option"

definition validate_SecurityModel :: "SecurityModel \<Rightarrow> bool" where
  "validate_SecurityModel m =
     (literal FirewallState (SecurityModel.firewall m) \<and>
      literal AVState (SecurityModel.av m) \<and>
      optional (ge 0) (SecurityModel.av_definitions_age_days m) \<and>
      optional (list_all validate_SecurityFinding) (SecurityModel.findings m))"

text \<open>\<^verbatim>\<open>class ContainerStat\<close>: Container statistics.\<close>

record ContainerStat =
  id' :: "string"
  name :: "string option"
  cpu_pct :: "real option"
  mem_bytes :: "int option"
  mem_limit_bytes :: "int option"
  net_rx_bytes_per_sec :: "real option"
  net_tx_bytes_per_sec :: "real option"
  state :: "string option"

definition validate_ContainerStat :: "ContainerStat \<Rightarrow> bool" where
  "validate_ContainerStat m =
     (optional (both (ge 0) (le 100)) (ContainerStat.cpu_pct m) \<and>
      optional (ge 0) (ContainerStat.mem_bytes m) \<and>
      optional (ge 0) (ContainerStat.mem_limit_bytes m) \<and>
      optional (ge 0) (ContainerStat.net_rx_bytes_per_sec m) \<and>
      optional (ge 0) (ContainerStat.net_tx_bytes_per_sec m))"

text \<open>\<^verbatim>\<open>class VMStat\<close>: VM Statistics.\<close>

record VMStat =
  name :: "string"
  vcpu_count :: "int option"
  cpu_pct :: "real option"
  mem_bytes :: "int option"
  mem_limit_bytes :: "int option"
  state :: "string option"

definition validate_VMStat :: "VMStat \<Rightarrow> bool" where
  "validate_VMStat m =
     (optional (ge 1) (VMStat.vcpu_count m) \<and>
      optional (both (ge 0) (le 100)) (VMStat.cpu_pct m) \<and>
      optional (ge 0) (VMStat.mem_bytes m) \<and>
      optional (ge 0) (VMStat.mem_limit_bytes m))"

text \<open>\<^verbatim>\<open>class VirtualizationModel\<close>: Virtualization Model.\<close>

record VirtualizationModel =
  timestamp :: "datetime"
  Containers :: "(ContainerStat list) option"
  vms :: "(VMStat list) option"
  hypervisor :: "string option"

definition validate_VirtualizationModel :: "VirtualizationModel \<Rightarrow> bool" where
  "validate_VirtualizationModel m =
     (optional (list_all validate_ContainerStat) (VirtualizationModel.Containers m) \<and>
      optional (list_all validate_VMStat) (VirtualizationModel.vms m))"

text \<open>\<^verbatim>\<open>class EndpointHealth\<close>: Endpoint Health.\<close>

record EndpointHealth =
  name :: "string"
  url_or_host :: "string"
  status :: "string"
  latency_ms :: "real option"
  last_ok :: "datetime option"
  http_status :: "int option"
  error :: "string option"

definition validate_EndpointHealth :: "EndpointHealth \<Rightarrow> bool" where
  "validate_EndpointHealth m =
     (literal [''up'', ''degraded'', ''down'', ''unknown''] (EndpointHealth.status m) \<and>
      optional (ge 0) (EndpointHealth.latency_ms m))"

text \<open>\<^verbatim>\<open>class RemoteConnectivityModel\<close>: Remote Connectivity Model.\<close>

record RemoteConnectivityModel =
  timestamp :: "datetime"
  endpoints :: "(EndpointHealth list) option"

definition validate_RemoteConnectivityModel :: "RemoteConnectivityModel \<Rightarrow> bool" where
  "validate_RemoteConnectivityModel m =
     (optional (list_all validate_EndpointHealth) (RemoteConnectivityModel.endpoints m))"

text \<open>\<^verbatim>\<open>class Alert\<close>: Normalized alert across panels.\<close>

record Alert =
  time :: "datetime"
  scope :: "string"
  severity :: "string"
  title :: "string"
  details :: "string option"

definition validate_Alert :: "Alert \<Rightarrow> bool" where
  "validate_Alert m =
     (literal [''cpu'', ''ram'', ''storage'', ''network'', ''hardware'', ''gpu'',
         ''processes'', ''services'', ''boot'', ''logs'', ''crash'', ''security'',
         ''virtualization'', ''remote'', ''system''] (Alert.scope m) \<and>
      literal Severity (Alert.severity m))"

text \<open>\<^verbatim>\<open>class HostInfo\<close>: Describes the host producing telementry.\<close>

record HostInfo =
  hostname :: "string option"
  os :: "string"
  os_version :: "string option"
  kernel_version :: "string option"
  arch :: "string option"
  serial_or_uuid :: "string option"
  tags :: "(string \<rightharpoonup> string) option"

definition validate_HostInfo :: "HostInfo \<Rightarrow> bool" where
  "validate_HostInfo m =
     (literal OSType (HostInfo.os m))"

text \<open>\<^verbatim>\<open>class SystemHealthSnapShot\<close>: A single collection cycle aggregating all panels.\<close>

record SystemHealthSnapShot =
  collected_at :: "datetime"
  sample_interval_s :: "real option"
  host :: "HostInfo"
  cpu :: "CPUModel option"
  ram :: "RAMModel option"
  storage :: "StorageModel option"
  network :: "NetworkModel option"
  hardware :: "HardwareHealthModel option"
  processes :: "ProcessSnapshot option"
  services :: "ServicesModel option"
  boot :: "BootInfo option"
  logs :: "LogsModel option"
  crash :: "CrashMonitorModel option"
  security :: "SecurityModel option"
  virtualization :: "VirtualizationModel option"
  remote :: "RemoteConnectivityModel option"
  alerts :: "(Alert list) option"

definition validate_SystemHealthSnapShot :: "SystemHealthSnapShot \<Rightarrow> bool" where
  "validate_SystemHealthSnapShot m =
     (optional (ge 0) (SystemHealthSnapShot.sample_interval_s m) \<and>
      validate_HostInfo (SystemHealthSnapShot.host m) \<and>
      optional validate_CPUModel (SystemHealthSnapShot.cpu m) \<and>
      optional validate_RAMModel (SystemHealthSnapShot.ram m) \<and>
      optional validate_StorageModel (SystemHealthSnapShot.storage m) \<and>
      optional validate_NetworkModel (SystemHealthSnapShot.network m) \<and>
      optional validate_HardwareHealthModel (SystemHealthSnapShot.hardware m) \<and>
      optional validate_ProcessSnapshot (SystemHealthSnapShot.processes m) \<and>
      optional validate_ServicesModel (SystemHealthSnapShot.services m) \<and>
      optional validate_BootInfo (SystemHealthSnapShot.boot m) \<and>
      optional validate_LogsModel (SystemHealthSnapShot.logs m) \<and>
      optional validate_CrashMonitorModel (SystemHealthSnapShot.crash m) \<and>
      optional validate_SecurityModel (SystemHealthSnapShot.security m) \<and>
      optional validate_VirtualizationModel (SystemHealthSnapShot.virtualization m) \<and>
      optional validate_RemoteConnectivityModel (SystemHealthSnapShot.remote m) \<and>
      optional (list_all validate_Alert) (SystemHealthSnapShot.alerts m))"

section \<open>The sampling, retention and streaming engine (backend/app/main.py)\<close>

subsection \<open>The bounded history buffer\<close>

text \<open>
  \<^verbatim>\<open>cpu_buf = deque(maxlen=900)\<close> is a Python deque with a maximum length. A deque is
  modelled as the list of its entries, oldest first. \<^verbatim>\<open>append\<close> on a bounded deque
  adds the item on the right and, when the deque is then longer than \<^verbatim>\<open>maxlen\<close>,
  discards one item from the left.
\<close>

definition deque_append :: "nat \<Rightarrow> 'a list \<Rightarrow> 'a \<Rightarrow> 'a list" where
  "deque_append maxlen d x =
     (let d' = d @ [x] in if maxlen < length d' then tl d' else d')"

text \<open>The capacity of \<^verbatim>\<open>cpu_buf\<close>: 15 minutes at one sample per second.\<close>

definition cpu_buf_maxlen :: nat where
  "cpu_buf_maxlen = 900"

text \<open>
  One entry of the buffer is the dict built by \<^verbatim>\<open>sampler\<close>: the wall-clock time
  \<^verbatim>\<open>time.time()\<close>, the overall CPU percentage and the per-core percentages, all
  Python floats (modelled as reals; only their order is ever used).
\<close>

record cpu_sample =
  t :: real
  total :: real
  per_core :: "real list"

subsection \<open>The sampler, the query endpoint and one stream subscriber\<close>

text \<open>
  The state of the process as far as one websocket connection sees it: the shared deque
  \<^verbatim>\<open>cpu_buf\<close>, the local variable \<^verbatim>\<open>last_len\<close> of that connection's \<^verbatim>\<open>stream\<close>
  coroutine, whether the coroutine is suspended inside \<^verbatim>\<open>await ws.send_json(...)\<close>,
  and the messages it has sent so far (the payload under the key \<^verbatim>\<open>"cpu"\<close>), oldest
  first. Other connections have their own \<^verbatim>\<open>last_len\<close> and never write to the deque,
  so one connection is modelled.
\<close>

record server =
  cpu_buf :: "cpu_sample list"
  last_len :: nat
  sending :: bool
  sent :: "cpu_sample list"

text \<open>Module start: the deque is empty. A connection starts with \<^verbatim>\<open>last_len = 0\<close>.\<close>

definition connect :: "cpu_sample list \<Rightarrow> server" where
  "connect buf = \<lparr>cpu_buf = buf, last_len = 0, sending = False, sent = []\<rparr>"

definition init :: server where
  "init = connect []"

text \<open>
  One iteration of the \<^verbatim>\<open>while True\<close> loop of \<^verbatim>\<open>sampler\<close>, up to its
  \<^verbatim>\<open>await asyncio.sleep(1)\<close>: the readings of the clock and of psutil come from the
  environment as the sample \<open>c\<close>, which is appended as it is.
\<close>

definition sampler :: "cpu_sample \<Rightarrow> server \<Rightarrow> server" where
  "sampler c s = s\<lparr>cpu_buf := deque_append cpu_buf_maxlen (cpu_buf s) c\<rparr>"

text \<open>\<^verbatim>\<open>metrics_now\<close>: the newest entry, or \<^verbatim>\<open>None\<close> for an empty deque.\<close>

definition metrics_now :: "cpu_sample list \<Rightarrow> cpu_sample option" where
  "metrics_now buf = (if buf \<noteq> [] then Some (last buf) else None)"

text \<open>
  One iteration of the loop of \<^verbatim>\<open>stream\<close> runs in two atomic parts, since
  \<^verbatim>\<open>await ws.send_json(...)\<close> is a suspension point of the cooperative scheduler.
  \<open>stream_poll\<close> is the test and the start of the send: the message holds the
  newest entry at that moment. \<open>stream_resume\<close> is the assignment
  \<^verbatim>\<open>last_len = len(cpu_buf)\<close> after the send has completed; when the test fails the
  iteration goes to sleep at once and nothing changes. A coroutine suspended in the
  send does not poll, and one that is not sending has nothing to resume.
\<close>

definition stream_poll :: "server \<Rightarrow> server" where
  "stream_poll s =
     (if sending s then s
      else if length (cpu_buf s) \<noteq> last_len s \<and> cpu_buf s \<noteq> []
      then s\<lparr>sending := True, sent := sent s @ [last (cpu_buf s)]\<rparr>
      else s)"

definition stream_resume :: "server \<Rightarrow> server" where
  "stream_resume s =
     (if sending s then s\<lparr>last_len := length (cpu_buf s), sending := False\<rparr> else s)"

text \<open>
  A run of the process is a sequence of such atomic parts, in any order the event loop
  may choose: the sampler appends a sample, the connection polls, or its send completes.
\<close>

datatype event = Sample cpu_sample | Poll | SendDone

fun step :: "server \<Rightarrow> event \<Rightarrow> server" where
  "step s (Sample c) = sampler c s"
| "step s Poll = stream_poll s"
| "step s SendDone = stream_resume s"

definition run :: "server \<Rightarrow> event list \<Rightarrow> server" where
  "run s evs = foldl step s evs"

text \<open>The samples appended along a run, in append order.\<close>

fun samples :: "event list \<Rightarrow> cpu_sample list" where
  "samples [] = []"
| "samples (Sample c # evs) = c # samples evs"
| "samples (_ # evs) = samples evs"

text \<open>The deque after appending the entries \<open>es\<close>, one after the other, to \<open>d\<close>.\<close>

definition appends :: "nat \<Rightarrow> 'a list \<Rightarrow> 'a list \<Rightarrow> 'a list" where
  "appends maxlen d es = foldl (deque_append maxlen) d es"

section \<open>Notions used to state the properties\<close>

text \<open>A sample taken at second \<open>k\<close> on an idle machine, for concrete runs.\<close>

definition smp :: "nat \<Rightarrow> cpu_sample" where
  "smp k = \<lparr>t = real k, total = 0, per_core = []\<rparr>"

text \<open>
  The invariant of a connection, relative to the list \<open>hist\<close> of all samples appended
  since module start: the deque holds the newest entries of \<open>hist\<close>; the messages sent
  are a subsequence of \<open>hist\<close>; and a connection that would send at its next poll has
  not yet sent the newest sample.
\<close>

definition stream_inv :: "cpu_sample list \<Rightarrow> server \<Rightarrow> bool" where
  "stream_inv hist s =
     (cpu_buf s = drop (length hist - cpu_buf_maxlen) hist \<and>
      subseq (sent s) hist \<and>
      (sending s \<or> last_len s = length (cpu_buf s) \<or> subseq (sent s) (butlast hist)))"

subsection \<open>Percentages of the CPU panel\<close>

definition in_percent_range :: "real \<Rightarrow> bool" where
  "in_percent_range p = (0 \<le> p \<and> p \<le> 100)"

text \<open>
  The percentage fields of a CPU panel: \<^verbatim>\<open>usage_total_pct\<close>, the \<^verbatim>\<open>usage_pct\<close> of every
  entry of \<^verbatim>\<open>per_core\<close> and the \<^verbatim>\<open>cpu_pct\<close> of every entry of \<^verbatim>\<open>top_processes\<close>.
\<close>

definition cpu_percentages :: "CPUModel \<Rightarrow> real list" where
  "cpu_percentages m =
     CPUModel.usage_total_pct m #
     (case CPUModel.per_core m of None \<Rightarrow> [] | Some cs \<Rightarrow> map CPUCoreUsage.usage_pct cs) @
     (case CPUModel.top_processes m of None \<Rightarrow> [] | Some ps \<Rightarrow> map TopCPUProcess.cpu_pct ps)"

text \<open>
  Two CPU panels that are identical but for the values of their percentage fields: the
  lists have the same entries in the same order, up to \<^verbatim>\<open>usage_pct\<close> and \<^verbatim>\<open>cpu_pct\<close>.
\<close>

definition cpu_same_but_percentages :: "CPUModel \<Rightarrow> CPUModel \<Rightarrow> bool" where
  "cpu_same_but_percentages m m' =
     (m' = m\<lparr>CPUModel.usage_total_pct := CPUModel.usage_total_pct m',
             CPUModel.per_core := CPUModel.per_core m',
             CPUModel.top_processes := CPUModel.top_processes m'\<rparr> \<and>
      rel_option (list_all2 (\<lambda>c c'. c' = c\<lparr>CPUCoreUsage.usage_pct := CPUCoreUsage.usage_pct c'\<rparr>))
        (CPUModel.per_core m) (CPUModel.per_core m') \<and>
      rel_option (list_all2 (\<lambda>p p'. p' = p\<lparr>TopCPUProcess.cpu_pct := TopCPUProcess.cpu_pct p'\<rparr>))
        (CPUModel.top_processes m) (CPUModel.top_processes m'))"

subsection \<open>Concrete candidates\<close>

definition host_example :: HostInfo where
  "host_example =
     \<lparr>hostname = Some ''box'', os = ''linux'', os_version = None, kernel_version = None,
      arch = None, serial_or_uuid = None, tags = None\<rparr>"

definition cpu_example :: CPUModel where
  "cpu_example =
     \<lparr>CPUModel.timestamp = 0, CPUModel.sample_interval_s = Some 1,
      CPUModel.physical_cores = Some 4, CPUModel.locial_cores = Some 8,
      CPUModel.usage_total_pct = 50,
      CPUModel.per_core =
        Some [\<lparr>CPUCoreUsage.core_index = 0, CPUCoreUsage.usage_pct = 10\<rparr>],
      CPUModel.frequency = None, CPUModel.temperature = None, CPUModel.throttle = None,
      CPUModel.power = None, CPUModel.load_avg = None,
      CPUModel.context_switches_per_sec = None, CPUModel.interrupts_per_sec = None,
      CPUModel.top_processes =
        Some [\<lparr>TopCPUProcess.pid = 1, TopCPUProcess.name = ''init'', TopCPUProcess.cpu_pct = 5,
               TopCPUProcess.user_time_s = None, TopCPUProcess.system_time_s = None\<rparr>]\<rparr>"

text \<open>A snapshot with the required host and no panel at all, and one with a CPU panel.\<close>

definition no_panels :: SystemHealthSnapShot where
  "no_panels =
     \<lparr>collected_at = 0, sample_interval_s = Some 1, host = host_example,
      cpu = None, ram = None, storage = None, network = None, hardware = None,
      processes = None, services = None, boot = None, logs = None, crash = None,
      security = None, virtualization = None, remote = None, alerts = None\<rparr>"

definition snapshot_example :: SystemHealthSnapShot where
  "snapshot_example = no_panels\<lparr>cpu := Some cpu_example\<rparr>"

subsection \<open>A buffer entry as a candidate of the contract\<close>

text \<open>
  An entry of \<^verbatim>\<open>cpu_buf\<close> is a Python dict. Handed to a pydantic model it is a mapping
  from keys to values that are not yet typed: \<open>sampler_dict\<close> is the dict that
  \<^verbatim>\<open>sampler\<close> builds, with its three keys.
\<close>

datatype py =
  PyNone | PyBool bool | PyInt int | PyFloat real | PyStr string
  | PyList "py list" | PyDict "(string \<times> py) list"

definition sampler_dict :: "cpu_sample \<Rightarrow> (string \<times> py) list" where
  "sampler_dict c =
     [(''t'', PyFloat (t c)),
      (''total'', PyFloat (total c)),
      (''per_core'', PyList (map PyFloat (per_core c)))]"

text \<open>
  The fields of \<^verbatim>\<open>CPUModel\<close> and of \<^verbatim>\<open>SystemHealthSnapShot\<close> that the source declares
  with neither a default nor a \<^verbatim>\<open>default_factory\<close>: pydantic requires their keys.
\<close>

definition CPUModel_required :: "string list" where
  "CPUModel_required = [''usage_total_pct'']"

definition SystemHealthSnapShot_required :: "string list" where
  "SystemHealthSnapShot_required = [''host'']"

definition missing_fields :: "string list \<Rightarrow> (string \<times> py) list \<Rightarrow> string list" where
  "missing_fields required d = filter (\<lambda>k. map_of d k = None) required"

text \<open>
  Validation of a mapping against a model raises \<^verbatim>\<open>ValidationError\<close> when a required
  key is missing, when a value cannot be converted to the declared type of its field, or
  when a converted value breaks a bound of its field; keys that name no field are
  ignored. The conversion of the values is pydantic's own and is taken as the
  parameter \<open>coerce\<close>; the bounds are the predicate \<open>validate_C\<close> of the model.
\<close>

datatype error = ValidationError

definition model_validate ::
  "string list \<Rightarrow> ((string \<times> py) list \<Rightarrow> 'a option) \<Rightarrow> ('a \<Rightarrow> bool) \<Rightarrow>
   (string \<times> py) list \<Rightarrow> error + 'a" where
  "model_validate required coerce constraints d =
     (if missing_fields required d = []
      then (case coerce d of
              None \<Rightarrow> Inl ValidationError
            | Some m \<Rightarrow> if constraints m then Inr m else Inl ValidationError)
      else Inl ValidationError)"

text \<open>
  The sample of the first iteration of \<^verbatim>\<open>sampler\<close> on a machine with two cores: the
  first reading of \<^verbatim>\<open>psutil.cpu_percent(interval=None)\<close> is 0.0.
\<close>

definition first_sample :: cpu_sample where
  "first_sample = \<lparr>t = 1730000000, total = 0, per_core = [0, 0]\<rparr>"

section \<open>Properties of the buffer\<close>

lemma deque_append_length:
  "length d \<le> n \<Longrightarrow> length (deque_append n d x) = min (Suc (length d)) n"
  by (auto simp: deque_append_def Let_def)

lemma deque_append_drop:
  "length d \<le> n \<Longrightarrow> deque_append n d x = drop (Suc (length d) - n) (d @ [x])"
  by (cases d) (auto simp: deque_append_def Let_def Suc_diff_le drop_Suc)

lemma appends_snoc: "appends n d (es @ [x]) = deque_append n (appends n d es) x"
  by (simp add: appends_def)

lemma appends_length_le: "length d \<le> n \<Longrightarrow> length (appends n d es) \<le> n"
  by (induction es rule: rev_induct) (simp_all add: appends_def deque_append_length)

lemma deque_append_drop_snoc:
  assumes "k = length ys - n"
  shows "deque_append n (drop k ys) x = drop (Suc (length ys) - n) (ys @ [x])"
proof (cases "length ys \<le> n")
  case True
  then show ?thesis
    using assms by (cases ys) (auto simp: deque_append_def Let_def Suc_diff_le drop_Suc)
next
  case False
  then have k: "k \<le> length ys" "length (drop k ys) = n" "Suc (length ys) - n = Suc k"
    using assms by auto
  have "deque_append n (drop k ys) x = tl (drop k ys @ [x])"
    using k(2) by (simp add: deque_append_def Let_def)
  also have "\<dots> = tl (drop k (ys @ [x]))"
    using k(1) by simp
  also have "\<dots> = drop (Suc k) (ys @ [x])"
    by (simp only: drop_Suc tl_drop)
  finally show ?thesis using k(3) by simp
qed

lemma appends_drop:
  "length d \<le> n \<Longrightarrow> appends n d es = drop (length d + length es - n) (d @ es)"
proof (induction es rule: rev_induct)
  case Nil
  then show ?case by (simp add: appends_def)
next
  case (snoc x es)
  define ys where "ys = d @ es"
  have eq: "appends n d es = drop (length ys - n) ys"
    using snoc by (simp add: ys_def)
  have "appends n d (es @ [x]) = deque_append n (drop (length ys - n) ys) x"
    by (simp add: appends_snoc eq)
  also have "\<dots> = drop (Suc (length ys) - n) (ys @ [x])"
    by (rule deque_append_drop_snoc) simp
  finally show ?case by (simp add: ys_def)
qed

lemma appends_length:
  "length d \<le> n \<Longrightarrow> length (appends n d es) = min (length d + length es) n"
  by (simp add: appends_drop)

section \<open>Properties of runs\<close>

lemma run_Nil: "run s [] = s"
  by (simp add: run_def)

lemma run_snoc: "run s (evs @ [e]) = step (run s evs) e"
  by (simp add: run_def)

lemma run_append: "run s (evs @ evs') = run (run s evs) evs'"
  by (simp add: run_def)

lemma samples_append: "samples (evs @ evs') = samples evs @ samples evs'"
  by (induction evs rule: samples.induct) simp_all

lemma samples_map_Sample: "samples (map Sample cs) = cs"
  by (induction cs) simp_all

lemma stream_poll_cpu_buf: "cpu_buf (stream_poll s) = cpu_buf s"
  by (simp add: stream_poll_def)

lemma stream_resume_cpu_buf: "cpu_buf (stream_resume s) = cpu_buf s"
  by (simp add: stream_resume_def)

lemma cpu_buf_step:
  "cpu_buf (step s e) = appends cpu_buf_maxlen (cpu_buf s) (samples [e])"
  by (cases e) (simp_all add: appends_def sampler_def stream_poll_cpu_buf stream_resume_cpu_buf)

lemma appends_append: "appends n d (es @ es') = appends n (appends n d es) es'"
  by (simp add: appends_def)

lemma cpu_buf_run:
  "cpu_buf (run s evs) = appends cpu_buf_maxlen (cpu_buf s) (samples evs)"
  by (induction evs rule: rev_induct)
    (simp_all add: run_Nil run_snoc cpu_buf_step samples_append appends_append [symmetric] appends_def)

lemma cpu_buf_run_init:
  "cpu_buf (run init evs) = drop (length (samples evs) - cpu_buf_maxlen) (samples evs)"
  by (simp add: cpu_buf_run init_def connect_def appends_drop)

text \<open>Sampler steps leave the connection's own variables alone.\<close>

lemma run_samples_only:
  "run s (map Sample cs) = s\<lparr>cpu_buf := appends cpu_buf_maxlen (cpu_buf s) cs\<rparr>"
  by (induction cs rule: rev_induct) (simp_all add: run_Nil run_snoc appends_def sampler_def)

subsection \<open>The buffer along a run\<close>

text \<open>
  C10. After \<open>k\<close> appends since module start the deque holds \<open>min k 900\<close> entries,
  whatever the connection did in between; so it never holds more than 900, and an
  append to a deque of 900 entries leaves it at 900.
\<close>

theorem cpu_buf_length_min:
  "length (cpu_buf (run init evs)) = min (length (samples evs)) 900 \<and>
   length (cpu_buf (run init evs)) \<le> 900 \<and>
   (length (cpu_buf (run init evs)) = 900 \<longrightarrow>
      length (cpu_buf (run init (evs @ [Sample c]))) = 900)"
proof -
  have len: "length (cpu_buf (run init es)) = min (length (samples es)) 900" for es
    by (simp add: cpu_buf_run_init cpu_buf_maxlen_def)
  have "length (cpu_buf (run init (evs @ [Sample c]))) = min (Suc (length (samples evs))) 900"
    by (simp add: len samples_append)
  then show ?thesis
    using len [of evs] by auto
qed

theorem cpu_buf_length_min_witness:
  "length (cpu_buf (run init (map Sample (map smp [0..<900])))) = 900 \<and>
   length (cpu_buf (run init (map Sample (map smp [0..<900]) @ [Sample (smp 900)]))) = 900"
  using cpu_buf_length_min [of "map Sample (map smp [0..<900])" "smp 900"]
  by (simp add: samples_map_Sample del: map_map)

text \<open>
  C3. The first-in-first-out law of the deque, for every capacity \<open>n\<close>: after more than
  \<open>n\<close> appends to an empty deque it holds exactly the last \<open>n\<close> appended entries, in
  append order; an append to a full deque drops exactly the oldest entry of the
  extended sequence (for \<open>n > 0\<close>, the oldest entry held before). The same for
  \<^verbatim>\<open>cpu_buf\<close>, whose capacity is 900, along every run.
\<close>

theorem deque_fifo_eviction:
  "(n < length es \<longrightarrow> appends n [] es = drop (length es - n) es \<and> length (appends n [] es) = n) \<and>
   (length d = n \<longrightarrow> deque_append n d x = tl (d @ [x])) \<and>
   (length d = n \<and> 0 < n \<longrightarrow> deque_append n d x = tl d @ [x]) \<and>
   (cpu_buf_maxlen < length (samples evs) \<longrightarrow>
      cpu_buf (run init evs) = drop (length (samples evs) - cpu_buf_maxlen) (samples evs))"
proof -
  have "appends n [] es = drop (length es - n) es"
    using appends_drop [of "[]" n es] by simp
  moreover have "length d = n \<Longrightarrow> deque_append n d x = tl (d @ [x])"
    by (simp add: deque_append_def)
  moreover have "length d = n \<Longrightarrow> 0 < n \<Longrightarrow> tl (d @ [x]) = tl d @ [x]"
    by (cases d) simp_all
  ultimately show ?thesis
    by (simp add: cpu_buf_run_init)
qed

theorem deque_fifo_eviction_witness:
  "appends 3 [] [''A'', ''B'', ''C'', ''D''] = [''B'', ''C'', ''D''] \<and>
   length (appends 3 [] [''A'', ''B'', ''C'', ''D'']) = 3 \<and>
   deque_append 3 [''A'', ''B'', ''C''] ''D'' = [''B'', ''C'', ''D''] \<and>
   cpu_buf (run init (map Sample (map smp [0..<901]))) = map smp [1..<901]"
proof -
  have "drop (Suc 0) (map smp [0..<901]) = map smp [1..<901]"
    by (simp only: drop_map drop_upt) simp
  then show ?thesis
    using deque_fifo_eviction [of 3 "[''A'', ''B'', ''C'', ''D'']" "[''A'', ''B'', ''C'']" "''D''"
        "map Sample (map smp [0..<901])"]
    by (simp add: samples_map_Sample cpu_buf_maxlen_def del: map_map)
qed

text \<open>
  C4. \<^verbatim>\<open>metrics_now\<close> answers \<^verbatim>\<open>None\<close>, not an error, while nothing has been
  appended, and after any run with at least one append it answers exactly the sample
  appended last.
\<close>

theorem metrics_now_latest:
  "metrics_now (cpu_buf init) = None \<and>
   (samples evs \<noteq> [] \<longrightarrow> metrics_now (cpu_buf (run init evs)) = Some (last (samples evs)))"
proof -
  have "metrics_now (cpu_buf (run init evs)) = Some (last (samples evs))"
    if ne: "samples evs \<noteq> []"
  proof -
    have lt: "length (samples evs) - cpu_buf_maxlen < length (samples evs)"
      using ne by (simp add: cpu_buf_maxlen_def)
    then have "cpu_buf (run init evs) \<noteq> []"
      by (simp add: cpu_buf_run_init)
    moreover have "last (cpu_buf (run init evs)) = last (samples evs)"
      using lt by (simp add: cpu_buf_run_init last_drop)
    ultimately show ?thesis
      by (simp add: metrics_now_def)
  qed
  then show ?thesis
    by (simp add: metrics_now_def init_def connect_def)
qed

theorem metrics_now_latest_witness:
  "samples [Sample (smp 1), Poll, Sample (smp 2), SendDone] \<noteq> [] \<and>
   metrics_now (cpu_buf (run init [Sample (smp 1), Poll, Sample (smp 2), SendDone])) = Some (smp 2)"
  using metrics_now_latest [of "[Sample (smp 1), Poll, Sample (smp 2), SendDone]"]
  by simp

subsection \<open>What a connection sends\<close>

lemma subseq_sorted_wrt:
  "subseq xs ys \<Longrightarrow> sorted_wrt R ys \<Longrightarrow> sorted_wrt R xs"
proof (induction rule: list_emb.induct)
  case (list_emb_Cons2 x y xs ys)
  then have "set xs \<subseteq> set ys"
    by (auto dest: list_emb_set)
  with list_emb_Cons2 show ?case by auto
qed simp_all

lemma stream_inv_connect:
  "stream_inv pre (connect (appends cpu_buf_maxlen [] pre))"
  by (simp add: stream_inv_def connect_def appends_drop)

lemma stream_inv_sampler:
  assumes "stream_inv hist s"
  shows "stream_inv (hist @ [c]) (sampler c s)"
proof -
  have "cpu_buf (sampler c s) = drop (length (hist @ [c]) - cpu_buf_maxlen) (hist @ [c])"
    using assms deque_append_drop_snoc [of "length hist - cpu_buf_maxlen" hist cpu_buf_maxlen c]
    by (simp add: stream_inv_def sampler_def)
  moreover have "subseq (sent (sampler c s)) (butlast (hist @ [c]))"
    using assms by (simp add: stream_inv_def sampler_def)
  moreover have "subseq (sent (sampler c s)) (hist @ [c])"
    using assms by (simp add: stream_inv_def sampler_def subseq_rev_drop_many)
  ultimately show ?thesis
    unfolding stream_inv_def by blast
qed

lemma stream_inv_poll:
  assumes "stream_inv hist s"
  shows "stream_inv hist (stream_poll s)"
proof (cases "\<not> sending s \<and> length (cpu_buf s) \<noteq> last_len s \<and> cpu_buf s \<noteq> []")
  case True
  have buf: "cpu_buf s = drop (length hist - cpu_buf_maxlen) hist"
    and emb: "subseq (sent s) (butlast hist)"
    using assms True by (auto simp: stream_inv_def)
  have ne: "hist \<noteq> []" and lt: "length hist - cpu_buf_maxlen < length hist"
    using True buf by auto
  have "last (cpu_buf s) = last hist"
    using buf lt by (simp add: last_drop)
  moreover have "subseq (sent s @ [last hist]) (butlast hist @ [last hist])"
    using emb by (simp only: subseq_append)
  ultimately have "subseq (sent s @ [last (cpu_buf s)]) hist"
    using ne by simp
  then show ?thesis
    using True buf by (simp add: stream_inv_def stream_poll_def)
next
  case False
  then have "stream_poll s = s"
    by (auto simp: stream_poll_def)
  then show ?thesis using assms by simp
qed

lemma stream_inv_resume:
  "stream_inv hist s \<Longrightarrow> stream_inv hist (stream_resume s)"
  by (auto simp: stream_inv_def stream_resume_def)

lemma stream_inv_step:
  "stream_inv hist s \<Longrightarrow> stream_inv (hist @ samples [e]) (step s e)"
  by (cases e) (simp_all add: stream_inv_sampler stream_inv_poll stream_inv_resume)

lemma stream_inv_run:
  "stream_inv hist s \<Longrightarrow> stream_inv (hist @ samples evs) (run s evs)"
proof (induction evs rule: rev_induct)
  case Nil
  then show ?case by (simp add: run_Nil)
next
  case (snoc e evs)
  then have "stream_inv ((hist @ samples evs) @ samples [e]) (step (run s evs) e)"
    by (intro stream_inv_step) simp
  then show ?case by (simp add: run_snoc samples_append)
qed

text \<open>
  C7, as the claim states it, fails in its timestamp half: the timestamp of a sample is
  the wall-clock reading \<^verbatim>\<open>time.time()\<close>, which may step back between two
  iterations of the sampler. When the sample stamped 5 is followed by one stamped 3 and
  the connection polls after each, it sends the timestamps 5 and then 3.
\<close>

theorem stream_timestamps_counterexample:
  "map t (sent (run init [Sample (smp 5), Poll, SendDone, Sample (smp 3), Poll, SendDone])) =
     [5, 3] \<and>
   \<not> sorted_wrt (\<le>)
     (map t (sent (run init [Sample (smp 5), Poll, SendDone, Sample (smp 3), Poll, SendDone])))"
  by (simp add: run_def init_def connect_def deque_append_def cpu_buf_maxlen_def
      sampler_def stream_poll_def stream_resume_def smp_def)

text \<open>
  C7, amended. A connection opened after the samples \<open>pre\<close> were appended, followed
  through any interleaving \<open>evs\<close> of sampler appends, polls of the connection and
  completions of its sends: the messages it sends are a subsequence of the samples in
  append order, so it never sends a sample appended earlier than one it has sent. And
  whenever the clock readings of the appended samples are non-decreasing, so are the
  timestamps of the messages.
\<close>

theorem stream_sends_in_append_order:
  "subseq (sent (run (connect (appends cpu_buf_maxlen [] pre)) evs)) (pre @ samples evs) \<and>
   (sorted_wrt (\<le>) (map t (pre @ samples evs)) \<longrightarrow>
      sorted_wrt (\<le>) (map t (sent (run (connect (appends cpu_buf_maxlen [] pre)) evs))))"
proof -
  have emb: "subseq (sent (run (connect (appends cpu_buf_maxlen [] pre)) evs)) (pre @ samples evs)"
    using stream_inv_run [OF stream_inv_connect, of pre evs] by (simp add: stream_inv_def)
  then have "subseq (map t (sent (run (connect (appends cpu_buf_maxlen [] pre)) evs)))
      (map t (pre @ samples evs))"
    by (rule subseq_map)
  then show ?thesis
    using emb subseq_sorted_wrt by blast
qed

theorem stream_sends_in_append_order_witness:
  "sorted_wrt (\<le>) (map t ([smp 0] @
      samples [Sample (smp 1), Poll, Sample (smp 2), SendDone, Sample (smp 3), Poll, SendDone])) \<and>
   sorted_wrt (\<le>) (map t (sent (run (connect (appends cpu_buf_maxlen [] [smp 0]))
      [Sample (smp 1), Poll, Sample (smp 2), SendDone, Sample (smp 3), Poll, SendDone]))) \<and>
   sent (run (connect (appends cpu_buf_maxlen [] [smp 0]))
      [Sample (smp 1), Poll, Sample (smp 2), SendDone, Sample (smp 3), Poll, SendDone]) =
     [smp 1, smp 3]"
proof -
  have "sent (run (connect (appends cpu_buf_maxlen [] [smp 0]))
      [Sample (smp 1), Poll, Sample (smp 2), SendDone, Sample (smp 3), Poll, SendDone]) =
     [smp 1, smp 3]"
    by (simp add: run_def connect_def appends_def deque_append_def cpu_buf_maxlen_def
        sampler_def stream_poll_def stream_resume_def)
  then show ?thesis
    using stream_sends_in_append_order [of "[smp 0]"
        "[Sample (smp 1), Poll, Sample (smp 2), SendDone, Sample (smp 3), Poll, SendDone]"]
    by (simp add: smp_def)
qed

subsection \<open>A full deque and the length test of the stream\<close>

text \<open>
  The test \<^verbatim>\<open>len(cpu_buf) != last_len\<close> of \<^verbatim>\<open>stream\<close> compares lengths. Once the
  deque is full and the connection has recorded that length, no later event makes the
  test succeed: the connection sends nothing any more.
\<close>

lemma stalled_step:
  assumes "length (cpu_buf s) = cpu_buf_maxlen" "last_len s = cpu_buf_maxlen" "\<not> sending s"
  shows "length (cpu_buf (step s e)) = cpu_buf_maxlen \<and> last_len (step s e) = cpu_buf_maxlen \<and>
    \<not> sending (step s e) \<and> sent (step s e) = sent s"
  using assms
  by (cases e) (simp_all add: sampler_def stream_poll_def stream_resume_def deque_append_length)

lemma stalled_run:
  assumes "length (cpu_buf s) = cpu_buf_maxlen" "last_len s = cpu_buf_maxlen" "\<not> sending s"
  shows "length (cpu_buf (run s evs)) = cpu_buf_maxlen \<and> last_len (run s evs) = cpu_buf_maxlen \<and>
    \<not> sending (run s evs) \<and> sent (run s evs) = sent s"
proof (induction evs rule: rev_induct)
  case Nil
  then show ?case using assms by (simp add: run_Nil)
next
  case (snoc e evs)
  then show ?case
    using stalled_step [of "run s evs" e] by (simp add: run_snoc)
qed

lemma full_after_900:
  "cpu_buf (run init (map Sample (map smp [0..<900]))) = map smp [0..<900]"
  by (simp add: cpu_buf_run_init samples_map_Sample cpu_buf_maxlen_def del: map_map)

lemma first_message:
  "run init (map Sample (map smp [0..<900]) @ [Poll, SendDone]) =
     \<lparr>cpu_buf = map smp [0..<900], last_len = 900, sending = False, sent = [smp 899]\<rparr>"
proof -
  have "run init (map Sample (map smp [0..<900])) =
      \<lparr>cpu_buf = map smp [0..<900], last_len = 0, sending = False, sent = []\<rparr>"
    using full_after_900
    by (simp add: run_samples_only init_def connect_def cpu_buf_run del: map_map)
  then show ?thesis
    by (simp add: run_append run_def stream_poll_def stream_resume_def last_map del: map_map)
qed

text \<open>
  C2. The marker the stream reads is \<^verbatim>\<open>len(cpu_buf)\<close>. Evaluated on the full deque:
  after 900 appends the marker is 900, and after the 901st append it is 900 again, not
  greater.
\<close>

theorem marker_unchanged_at_capacity:
  "length (cpu_buf (run init (map Sample (map smp [0..<900])))) = 900 \<and>
   length (cpu_buf (run init (map Sample (map smp [0..<900]) @ [Sample (smp 900)]))) = 900"
  by (simp add: cpu_buf_run_init samples_append samples_map_Sample cpu_buf_maxlen_def del: map_map)

text \<open>
  C1. The stream evaluated on a run that fills the deque: 900 appends, a poll whose send
  completes (the message is sample 899), the 901st append, and two more polls. The
  newest sample is then sample 900, as \<^verbatim>\<open>metrics_now\<close> answers, but the connection
  has sent nothing after sample 899.
\<close>

theorem stream_silent_at_capacity:
  "sent (run init (map Sample (map smp [0..<900]) @
      [Poll, SendDone] @ [Sample (smp 900), Poll, SendDone, Poll, SendDone])) = [smp 899] \<and>
   metrics_now (cpu_buf (run init (map Sample (map smp [0..<900]) @
      [Poll, SendDone] @ [Sample (smp 900), Poll, SendDone, Poll, SendDone]))) = Some (smp 900)"
proof -
  let ?s = "\<lparr>cpu_buf = map smp [0..<900], last_len = 900, sending = False, sent = [smp 899]\<rparr>"
  let ?evs = "[Sample (smp 900), Poll, SendDone, Poll, SendDone]"
  have run: "run init (map Sample (map smp [0..<900]) @ [Poll, SendDone] @ ?evs) = run ?s ?evs"
    using first_message by (simp only: run_append append_assoc [symmetric])
  have "sent (run ?s ?evs) = sent ?s"
    using stalled_run [of ?s ?evs] by (simp add: cpu_buf_maxlen_def)
  moreover have "metrics_now (cpu_buf (run ?s ?evs)) = Some (smp 900)"
    by (simp add: cpu_buf_run appends_def deque_append_def metrics_now_def cpu_buf_maxlen_def)
  ultimately show ?thesis
    by (simp only: run) simp
qed

section \<open>Properties of the snapshot contract\<close>

lemmas bounds_defs = ge_def le_def both_def literal_def

subsection \<open>Percentages of the CPU panel\<close>

lemma validate_CPUCoreUsage_pct:
  "validate_CPUCoreUsage c \<Longrightarrow>
   validate_CPUCoreUsage (c\<lparr>CPUCoreUsage.usage_pct := v\<rparr>) = in_percent_range v"
  by (simp add: validate_CPUCoreUsage_def in_percent_range_def bounds_defs)

lemma validate_TopCPUProcess_pct:
  "validate_TopCPUProcess p \<Longrightarrow>
   validate_TopCPUProcess (p\<lparr>TopCPUProcess.cpu_pct := v\<rparr>) = in_percent_range v"
  by (simp add: validate_TopCPUProcess_def in_percent_range_def bounds_defs)

lemma cores_same_but_pct:
  "list_all2 (\<lambda>c c'. c' = c\<lparr>CPUCoreUsage.usage_pct := CPUCoreUsage.usage_pct c'\<rparr>) cs cs' \<Longrightarrow>
   list_all validate_CPUCoreUsage cs \<Longrightarrow>
   list_all validate_CPUCoreUsage cs' = list_all in_percent_range (map CPUCoreUsage.usage_pct cs')"
proof (induction rule: list_all2_induct)
  case Nil
  then show ?case by simp
next
  case (Cons c cs c' cs')
  then show ?case
    using validate_CPUCoreUsage_pct [of c "CPUCoreUsage.usage_pct c'"] by simp
qed

lemma procs_same_but_pct:
  "list_all2 (\<lambda>p p'. p' = p\<lparr>TopCPUProcess.cpu_pct := TopCPUProcess.cpu_pct p'\<rparr>) ps ps' \<Longrightarrow>
   list_all validate_TopCPUProcess ps \<Longrightarrow>
   list_all validate_TopCPUProcess ps' = list_all in_percent_range (map TopCPUProcess.cpu_pct ps')"
proof (induction rule: list_all2_induct)
  case Nil
  then show ?case by simp
next
  case (Cons p ps p' ps')
  then show ?case
    using validate_TopCPUProcess_pct [of p "TopCPUProcess.cpu_pct p'"] by simp
qed

lemma validate_CPUCoreUsage_range:
  "validate_CPUCoreUsage c \<Longrightarrow> in_percent_range (CPUCoreUsage.usage_pct c)"
  by (simp add: validate_CPUCoreUsage_def in_percent_range_def bounds_defs)

lemma validate_TopCPUProcess_range:
  "validate_TopCPUProcess p \<Longrightarrow> in_percent_range (TopCPUProcess.cpu_pct p)"
  by (simp add: validate_TopCPUProcess_def in_percent_range_def bounds_defs)

lemma validate_CPUModel_range:
  assumes "validate_CPUModel m"
  shows "list_all in_percent_range (cpu_percentages m)"
proof -
  have "in_percent_range (CPUModel.usage_total_pct m)"
    using assms by (simp add: validate_CPUModel_def in_percent_range_def bounds_defs)
  moreover have "list_all in_percent_range (map CPUCoreUsage.usage_pct cs)"
    if "CPUModel.per_core m = Some cs" for cs
    using assms that
    by (auto simp: validate_CPUModel_def list_all_iff dest: validate_CPUCoreUsage_range)
  moreover have "list_all in_percent_range (map TopCPUProcess.cpu_pct ps)"
    if "CPUModel.top_processes m = Some ps" for ps
    using assms that
    by (auto simp: validate_CPUModel_def list_all_iff dest: validate_TopCPUProcess_range)
  ultimately show ?thesis
    by (simp add: cpu_percentages_def split: option.splits)
qed

lemma validate_CPUModel_same_but_percentages:
  assumes ok: "validate_CPUModel m" and same: "cpu_same_but_percentages m m'"
  shows "validate_CPUModel m' = list_all in_percent_range (cpu_percentages m')"
proof -
  have eq: "m' = m\<lparr>CPUModel.usage_total_pct := CPUModel.usage_total_pct m',
             CPUModel.per_core := CPUModel.per_core m',
             CPUModel.top_processes := CPUModel.top_processes m'\<rparr>"
    using same by (simp add: cpu_same_but_percentages_def)
  have cores: "optional (list_all validate_CPUCoreUsage) (CPUModel.per_core m') =
      list_all in_percent_range
        (case CPUModel.per_core m' of None \<Rightarrow> [] | Some cs \<Rightarrow> map CPUCoreUsage.usage_pct cs)"
  proof (cases "CPUModel.per_core m'")
    case None
    then show ?thesis by simp
  next
    case (Some cs')
    then obtain cs where "CPUModel.per_core m = Some cs"
      and "list_all2 (\<lambda>c c'. c' = c\<lparr>CPUCoreUsage.usage_pct := CPUCoreUsage.usage_pct c'\<rparr>) cs cs'"
      using same by (auto simp: cpu_same_but_percentages_def option_rel_Some2)
    then show ?thesis
      using ok Some cores_same_but_pct [of cs cs'] by (simp add: validate_CPUModel_def)
  qed
  have procs: "optional (list_all validate_TopCPUProcess) (CPUModel.top_processes m') =
      list_all in_percent_range
        (case CPUModel.top_processes m' of None \<Rightarrow> [] | Some ps \<Rightarrow> map TopCPUProcess.cpu_pct ps)"
  proof (cases "CPUModel.top_processes m'")
    case None
    then show ?thesis by simp
  next
    case (Some ps')
    then obtain ps where "CPUModel.top_processes m = Some ps"
      and "list_all2 (\<lambda>p p'. p' = p\<lparr>TopCPUProcess.cpu_pct := TopCPUProcess.cpu_pct p'\<rparr>) ps ps'"
      using same by (auto simp: cpu_same_but_percentages_def option_rel_Some2)
    then show ?thesis
      using ok Some procs_same_but_pct [of ps ps'] by (simp add: validate_CPUModel_def)
  qed
  have "validate_CPUModel m' =
      (in_percent_range (CPUModel.usage_total_pct m') \<and>
       optional (list_all validate_CPUCoreUsage) (CPUModel.per_core m') \<and>
       optional (list_all validate_TopCPUProcess) (CPUModel.top_processes m'))"
    using ok by (subst eq) (auto simp: validate_CPUModel_def in_percent_range_def bounds_defs)
  then show ?thesis
    by (simp add: cores procs cpu_percentages_def)
qed

lemma validate_snapshot_cpu:
  "validate_SystemHealthSnapShot s \<Longrightarrow> cpu s = Some m \<Longrightarrow> validate_CPUModel m"
  by (simp add: validate_SystemHealthSnapShot_def)

lemma validate_snapshot_cpu_update:
  "validate_SystemHealthSnapShot s \<Longrightarrow>
   validate_SystemHealthSnapShot (s\<lparr>cpu := Some m'\<rparr>) = validate_CPUModel m'"
  by (simp add: validate_SystemHealthSnapShot_def)

lemmas example_defs =
  snapshot_example_def no_panels_def cpu_example_def host_example_def
  validate_SystemHealthSnapShot_def validate_HostInfo_def validate_CPUModel_def
  validate_CPUCoreUsage_def validate_TopCPUProcess_def OSType_def bounds_defs

lemma snapshot_example_valid: "validate_SystemHealthSnapShot snapshot_example"
  by (simp add: example_defs)

text \<open>
  C5. A snapshot whose CPU panel has a percentage field outside [0,100] is rejected. And
  among the snapshots that differ from an accepted one only in the percentage fields of
  the CPU panel, validation accepts exactly those whose percentage fields all lie in
  [0,100].
\<close>

theorem cpu_percentages_validated:
  "(cpu s = Some m \<and> \<not> list_all in_percent_range (cpu_percentages m) \<longrightarrow>
      \<not> validate_SystemHealthSnapShot s) \<and>
   (validate_SystemHealthSnapShot s \<and> cpu s = Some m \<and> cpu_same_but_percentages m m' \<longrightarrow>
      validate_SystemHealthSnapShot (s\<lparr>cpu := Some m'\<rparr>) =
        list_all in_percent_range (cpu_percentages m'))"
proof (intro conjI impI)
  assume "cpu s = Some m \<and> \<not> list_all in_percent_range (cpu_percentages m)"
  then show "\<not> validate_SystemHealthSnapShot s"
    using validate_snapshot_cpu [of s m] validate_CPUModel_range [of m] by blast
next
  assume a: "validate_SystemHealthSnapShot s \<and> cpu s = Some m \<and> cpu_same_but_percentages m m'"
  then have "validate_CPUModel m"
    using validate_snapshot_cpu by blast
  then have "validate_CPUModel m' = list_all in_percent_range (cpu_percentages m')"
    using a validate_CPUModel_same_but_percentages [of m m'] by blast
  then show "validate_SystemHealthSnapShot (s\<lparr>cpu := Some m'\<rparr>) =
      list_all in_percent_range (cpu_percentages m')"
    using a by (simp add: validate_snapshot_cpu_update)
qed

theorem cpu_percentages_validated_witness:
  "cpu (snapshot_example\<lparr>cpu := Some (cpu_example\<lparr>CPUModel.usage_total_pct := 101\<rparr>)\<rparr>) =
     Some (cpu_example\<lparr>CPUModel.usage_total_pct := 101\<rparr>) \<and>
   \<not> list_all in_percent_range (cpu_percentages (cpu_example\<lparr>CPUModel.usage_total_pct := 101\<rparr>)) \<and>
   \<not> validate_SystemHealthSnapShot
       (snapshot_example\<lparr>cpu := Some (cpu_example\<lparr>CPUModel.usage_total_pct := 101\<rparr>)\<rparr>) \<and>
   validate_SystemHealthSnapShot snapshot_example \<and>
   cpu snapshot_example = Some cpu_example \<and>
   cpu_same_but_percentages cpu_example (cpu_example\<lparr>CPUModel.usage_total_pct := 100\<rparr>) \<and>
   validate_SystemHealthSnapShot
     (snapshot_example\<lparr>cpu := Some (cpu_example\<lparr>CPUModel.usage_total_pct := 100\<rparr>)\<rparr>) \<and>
   cpu_same_but_percentages cpu_example
     (cpu_example\<lparr>CPUModel.per_core :=
        Some [\<lparr>CPUCoreUsage.core_index = 0, CPUCoreUsage.usage_pct = 150\<rparr>]\<rparr>) \<and>
   \<not> validate_SystemHealthSnapShot
       (snapshot_example\<lparr>cpu := Some (cpu_example\<lparr>CPUModel.per_core :=
          Some [\<lparr>CPUCoreUsage.core_index = 0, CPUCoreUsage.usage_pct = 150\<rparr>]\<rparr>)\<rparr>)"
proof -
  let ?core = "cpu_example\<lparr>CPUModel.per_core :=
      Some [\<lparr>CPUCoreUsage.core_index = 0, CPUCoreUsage.usage_pct = 150\<rparr>]\<rparr>"
  have core: "\<not> list_all in_percent_range (cpu_percentages ?core)"
    by (simp add: cpu_percentages_def in_percent_range_def)
  have same_core: "cpu_same_but_percentages cpu_example ?core"
    by (simp add: cpu_same_but_percentages_def cpu_example_def)
  let ?bad = "cpu_example\<lparr>CPUModel.usage_total_pct := 101\<rparr>"
  let ?good = "cpu_example\<lparr>CPUModel.usage_total_pct := 100\<rparr>"
  have bad: "\<not> list_all in_percent_range (cpu_percentages ?bad)"
    by (simp add: cpu_percentages_def in_percent_range_def)
  have good: "list_all in_percent_range (cpu_percentages ?good)"
    by (simp add: cpu_percentages_def cpu_example_def in_percent_range_def)
  have same: "cpu_same_but_percentages cpu_example ?good"
    by (simp add: cpu_same_but_percentages_def cpu_example_def)
  have sel: "cpu snapshot_example = Some cpu_example"
    by (simp add: snapshot_example_def)
  show ?thesis
    using cpu_percentages_validated [of "snapshot_example\<lparr>cpu := Some ?bad\<rparr>" ?bad]
      cpu_percentages_validated [of snapshot_example cpu_example ?good]
      cpu_percentages_validated [of snapshot_example cpu_example ?core]
      bad good same core same_core sel snapshot_example_valid
    by simp
qed

subsection \<open>Absent panels\<close>

text \<open>
  C6, as the claim states it, fails: a candidate with the required host and no panel at
  all is rejected when its sampling interval is negative, and when the \<^verbatim>\<open>os\<close> of
  its host is not a member of \<^verbatim>\<open>OSType\<close>.
\<close>

theorem absent_panels_counterexample:
  "\<not> validate_SystemHealthSnapShot (no_panels\<lparr>sample_interval_s := Some (- 1)\<rparr>) \<and>
   \<not> validate_SystemHealthSnapShot (no_panels\<lparr>host := host_example\<lparr>os := ''solaris''\<rparr>\<rparr>)"
  by (simp add: example_defs)

text \<open>
  C6, amended. A candidate is accepted whenever the \<^verbatim>\<open>os\<close> of its host is a member of
  \<^verbatim>\<open>OSType\<close>, its sampling interval, when present, is not negative, and each panel that
  is present satisfies the constraints of its model, whichever panels are absent. In
  particular removing a panel from an accepted candidate leaves it accepted, and a
  candidate with no panel at all is accepted on its host and sampling interval alone.
\<close>

theorem absent_panels_accepted:
  "(os (host s) \<in> set OSType \<and>
    (\<forall>i. sample_interval_s s = Some i \<longrightarrow> 0 \<le> i) \<and>
    (\<forall>m. cpu s = Some m \<longrightarrow> validate_CPUModel m) \<and>
    (\<forall>m. ram s = Some m \<longrightarrow> validate_RAMModel m) \<and>
    (\<forall>m. storage s = Some m \<longrightarrow> validate_StorageModel m) \<and>
    (\<forall>m. network s = Some m \<longrightarrow> validate_NetworkModel m) \<and>
    (\<forall>m. hardware s = Some m \<longrightarrow> validate_HardwareHealthModel m) \<and>
    (\<forall>m. processes s = Some m \<longrightarrow> validate_ProcessSnapshot m) \<and>
    (\<forall>m. services s = Some m \<longrightarrow> validate_ServicesModel m) \<and>
    (\<forall>m. boot s = Some m \<longrightarrow> validate_BootInfo m) \<and>
    (\<forall>m. logs s = Some m \<longrightarrow> validate_LogsModel m) \<and>
    (\<forall>m. crash s = Some m \<longrightarrow> validate_CrashMonitorModel m) \<and>
    (\<forall>m. security s = Some m \<longrightarrow> validate_SecurityModel m) \<and>
    (\<forall>m. virtualization s = Some m \<longrightarrow> validate_VirtualizationModel m) \<and>
    (\<forall>m. remote s = Some m \<longrightarrow> validate_RemoteConnectivityModel m) \<and>
    (\<forall>as. alerts s = Some as \<longrightarrow> list_all validate_Alert as)
    \<longrightarrow> validate_SystemHealthSnapShot s) \<and>
   (validate_SystemHealthSnapShot s \<longrightarrow>
      validate_SystemHealthSnapShot (s\<lparr>cpu := None\<rparr>) \<and>
      validate_SystemHealthSnapShot (s\<lparr>ram := None\<rparr>) \<and>
      validate_SystemHealthSnapShot (s\<lparr>storage := None\<rparr>) \<and>
      validate_SystemHealthSnapShot (s\<lparr>network := None\<rparr>) \<and>
      validate_SystemHealthSnapShot (s\<lparr>hardware := None\<rparr>) \<and>
      validate_SystemHealthSnapShot (s\<lparr>processes := None\<rparr>) \<and>
      validate_SystemHealthSnapShot (s\<lparr>services := None\<rparr>) \<and>
      validate_SystemHealthSnapShot (s\<lparr>boot := None\<rparr>) \<and>
      validate_SystemHealthSnapShot (s\<lparr>logs := None\<rparr>) \<and>
      validate_SystemHealthSnapShot (s\<lparr>crash := None\<rparr>) \<and>
      validate_SystemHealthSnapShot (s\<lparr>security := None\<rparr>) \<and>
      validate_SystemHealthSnapShot (s\<lparr>virtualization := None\<rparr>) \<and>
      validate_SystemHealthSnapShot (s\<lparr>remote := None\<rparr>) \<and>
      validate_SystemHealthSnapShot (s\<lparr>alerts := None\<rparr>)) \<and>
   validate_SystemHealthSnapShot
     \<lparr>collected_at = stamp, sample_interval_s = interval, host = h,
      cpu = None, ram = None, storage = None, network = None, hardware = None,
      processes = None, services = None, boot = None, logs = None, crash = None,
      security = None, virtualization = None, remote = None, alerts = None\<rparr> =
     (os h \<in> set OSType \<and> (\<forall>i. interval = Some i \<longrightarrow> 0 \<le> i))"
proof -
  have opt: "optional p x = (\<forall>v. x = Some v \<longrightarrow> p v)" for p :: "'a \<Rightarrow> bool" and x
    by (cases x) simp_all
  have "\<And>i::real option. optional (ge 0) i = (\<forall>v. i = Some v \<longrightarrow> 0 \<le> v)"
    by (simp add: opt ge_def)
  then have interval: "optional (ge 0) (sample_interval_s s) = (\<forall>i. sample_interval_s s = Some i \<longrightarrow> 0 \<le> i)"
    "optional (ge 0) interval = (\<forall>i. interval = Some i \<longrightarrow> 0 \<le> i)"
    by blast+
  have first: "validate_SystemHealthSnapShot s"
    if "os (host s) \<in> set OSType" "\<forall>i. sample_interval_s s = Some i \<longrightarrow> 0 \<le> i"
      "\<forall>m. cpu s = Some m \<longrightarrow> validate_CPUModel m"
      "\<forall>m. ram s = Some m \<longrightarrow> validate_RAMModel m"
      "\<forall>m. storage s = Some m \<longrightarrow> validate_StorageModel m"
      "\<forall>m. network s = Some m \<longrightarrow> validate_NetworkModel m"
      "\<forall>m. hardware s = Some m \<longrightarrow> validate_HardwareHealthModel m"
      "\<forall>m. processes s = Some m \<longrightarrow> validate_ProcessSnapshot m"
      "\<forall>m. services s = Some m \<longrightarrow> validate_ServicesModel m"
      "\<forall>m. boot s = Some m \<longrightarrow> validate_BootInfo m"
      "\<forall>m. logs s = Some m \<longrightarrow> validate_LogsModel m"
      "\<forall>m. crash s = Some m \<longrightarrow> validate_CrashMonitorModel m"
      "\<forall>m. security s = Some m \<longrightarrow> validate_SecurityModel m"
      "\<forall>m. virtualization s = Some m \<longrightarrow> validate_VirtualizationModel m"
      "\<forall>m. remote s = Some m \<longrightarrow> validate_RemoteConnectivityModel m"
      "\<forall>as. alerts s = Some as \<longrightarrow> list_all validate_Alert as"
    unfolding validate_SystemHealthSnapShot_def interval(1)
    using that by (simp add: opt validate_HostInfo_def literal_def)
  have second: "validate_SystemHealthSnapShot (s\<lparr>cpu := None\<rparr>) \<and>
      validate_SystemHealthSnapShot (s\<lparr>ram := None\<rparr>) \<and>
      validate_SystemHealthSnapShot (s\<lparr>storage := None\<rparr>) \<and>
      validate_SystemHealthSnapShot (s\<lparr>network := None\<rparr>) \<and>
      validate_SystemHealthSnapShot (s\<lparr>hardware := None\<rparr>) \<and>
      validate_SystemHealthSnapShot (s\<lparr>processes := None\<rparr>) \<and>
      validate_SystemHealthSnapShot (s\<lparr>services := None\<rparr>) \<and>
      validate_SystemHealthSnapShot (s\<lparr>boot := None\<rparr>) \<and>
      validate_SystemHealthSnapShot (s\<lparr>logs := None\<rparr>) \<and>
      validate_SystemHealthSnapShot (s\<lparr>crash := None\<rparr>) \<and>
      validate_SystemHealthSnapShot (s\<lparr>security := None\<rparr>) \<and>
      validate_SystemHealthSnapShot (s\<lparr>virtualization := None\<rparr>) \<and>
      validate_SystemHealthSnapShot (s\<lparr>remote := None\<rparr>) \<and>
      validate_SystemHealthSnapShot (s\<lparr>alerts := None\<rparr>)"
    if "validate_SystemHealthSnapShot s"
    using that by (simp add: validate_SystemHealthSnapShot_def)
  have third: "validate_SystemHealthSnapShot
     \<lparr>collected_at = stamp, sample_interval_s = interval, host = h,
      cpu = None, ram = None, storage = None, network = None, hardware = None,
      processes = None, services = None, boot = None, logs = None, crash = None,
      security = None, virtualization = None, remote = None, alerts = None\<rparr> =
     (os h \<in> set OSType \<and> (\<forall>i. interval = Some i \<longrightarrow> 0 \<le> i))"
    by (simp add: validate_SystemHealthSnapShot_def interval(2) validate_HostInfo_def literal_def
        conj_commute)
  show ?thesis
    using first second third by blast
qed

theorem absent_panels_accepted_witness:
  "os (host snapshot_example) \<in> set OSType \<and>
   sample_interval_s snapshot_example = Some 1 \<and>
   cpu snapshot_example = Some cpu_example \<and> validate_CPUModel cpu_example \<and>
   ram snapshot_example = None \<and> storage snapshot_example = None \<and>
   network snapshot_example = None \<and> hardware snapshot_example = None \<and>
   processes snapshot_example = None \<and> services snapshot_example = None \<and>
   boot snapshot_example = None \<and> logs snapshot_example = None \<and>
   crash snapshot_example = None \<and> security snapshot_example = None \<and>
   virtualization snapshot_example = None \<and> remote snapshot_example = None \<and>
   alerts snapshot_example = None \<and>
   validate_SystemHealthSnapShot snapshot_example \<and>
   validate_SystemHealthSnapShot (snapshot_example\<lparr>cpu := None\<rparr>) \<and>
   validate_SystemHealthSnapShot no_panels"
  using absent_panels_accepted [of snapshot_example 0 "Some 1" host_example]
  by (simp add: example_defs)

subsection \<open>Categorical fields\<close>

text \<open>
  C8, as the claim states it, fails: \<^verbatim>\<open>Severity\<close> has neither an \<^verbatim>\<open>unknown\<close> nor an
  \<^verbatim>\<open>other\<close> member, so a log event of severity \<^verbatim>\<open>unknown\<close> is rejected; the memory
  pressure state may be null; and the \<^verbatim>\<open>status\<close> of a connection is any string.
\<close>

theorem categorical_fields_counterexample:
  "''unknown'' \<notin> set Severity \<and> ''other'' \<notin> set Severity \<and>
   \<not> validate_LogEvent
       \<lparr>LogEvent.time = 0, source = ''kernel'', LogEvent.severity = ''unknown'',
        code = None, message = ''oom'', count = None\<rparr> \<and>
   validate_PressureStatus \<lparr>instant = None, score = None\<rparr> \<and>
   validate_ConnectionStat
     \<lparr>protocol = ''tcp'', local_addr = None, remote_addr = None,
      ConnectionStat.status = Some ''not a socket state'', ConnectionStat.pid = None\<rparr>"
  by (simp add: Severity_def Protocol_def validate_LogEvent_def validate_PressureStatus_def
      validate_ConnectionStat_def bounds_defs)

lemma CPUThrottleStatus_reason_closed:
  "validate_CPUThrottleStatus (thr\<lparr>CPUThrottleStatus.reason := Some v\<rparr>) =
     (v \<in> set [''thermal'', ''power'', ''current'', ''other''] \<and>
      validate_CPUThrottleStatus (thr\<lparr>CPUThrottleStatus.reason := None\<rparr>))"
  by (auto simp: validate_CPUThrottleStatus_def literal_def)

lemma PressureStatus_instant_closed:
  "validate_PressureStatus (pres\<lparr>PressureStatus.instant := Some v\<rparr>) =
     (v \<in> set [''normal'', ''elevated'', ''critical''] \<and>
      validate_PressureStatus (pres\<lparr>PressureStatus.instant := None\<rparr>))"
  by (auto simp: validate_PressureStatus_def literal_def)

lemma DiskPartition_fs_type_closed:
  "validate_DiskPartition (part\<lparr>DiskPartition.fs_type := v\<rparr>) =
     (v \<in> set FilesystemType \<and>
      validate_DiskPartition (part\<lparr>DiskPartition.fs_type := ''other''\<rparr>))"
  by (auto simp: validate_DiskPartition_def literal_def FilesystemType_def)

lemma NetworkInterface_type_closed:
  "validate_NetworkInterface (iface\<lparr>NetworkInterface.type := v\<rparr>) =
     (v \<in> set IFaceType \<and>
      validate_NetworkInterface (iface\<lparr>NetworkInterface.type := ''unknown''\<rparr>))"
  by (auto simp: validate_NetworkInterface_def literal_def IFaceType_def)

lemma NetworkInterface_duplex_closed:
  "validate_NetworkInterface (iface\<lparr>NetworkInterface.duplex := Some v\<rparr>) =
     (v \<in> set [''full'', ''half'', ''unknown''] \<and>
      validate_NetworkInterface (iface\<lparr>NetworkInterface.duplex := None\<rparr>))"
  by (auto simp: validate_NetworkInterface_def literal_def)

lemma ConnectionStat_protocol_closed:
  "validate_ConnectionStat (conn\<lparr>ConnectionStat.protocol := v\<rparr>) =
     (v \<in> set Protocol \<and>
      validate_ConnectionStat (conn\<lparr>ConnectionStat.protocol := ''tcp''\<rparr>))"
  by (auto simp: validate_ConnectionStat_def literal_def Protocol_def)

lemma ServiceStatus_state_closed:
  "validate_ServiceStatus (svc\<lparr>ServiceStatus.state := v\<rparr>) =
     (v \<in> set ServiceState \<and>
      validate_ServiceStatus (svc\<lparr>ServiceStatus.state := ''unknown''\<rparr>))"
  by (auto simp: validate_ServiceStatus_def literal_def ServiceState_def)

lemma LogEvent_severity_closed:
  "validate_LogEvent (ev\<lparr>LogEvent.severity := v\<rparr>) =
     (v \<in> set Severity \<and>
      validate_LogEvent (ev\<lparr>LogEvent.severity := ''info''\<rparr>))"
  by (auto simp: validate_LogEvent_def literal_def Severity_def)

lemma CrashRecord_type_closed:
  "validate_CrashRecord (crashed\<lparr>CrashRecord.type := v\<rparr>) =
     (v \<in> set [''app_crash'', ''driver_fault'', ''kernal_panic'', ''bsod'', ''other''] \<and>
      validate_CrashRecord (crashed\<lparr>CrashRecord.type := ''other''\<rparr>))"
  by (auto simp: validate_CrashRecord_def literal_def)

lemma SecurityFinding_severity_closed:
  "validate_SecurityFinding (finding\<lparr>SecurityFinding.severity := v\<rparr>) =
     (v \<in> set Severity \<and>
      validate_SecurityFinding (finding\<lparr>SecurityFinding.severity := ''info''\<rparr>))"
  by (auto simp: validate_SecurityFinding_def literal_def Severity_def)

lemma SecurityModel_firewall_closed:
  "validate_SecurityModel (posture\<lparr>SecurityModel.firewall := v\<rparr>) =
     (v \<in> set FirewallState \<and>
      validate_SecurityModel (posture\<lparr>SecurityModel.firewall := ''unknown''\<rparr>))"
  by (auto simp: validate_SecurityModel_def literal_def FirewallState_def)

lemma SecurityModel_av_closed:
  "validate_SecurityModel (posture\<lparr>SecurityModel.av := v\<rparr>) =
     (v \<in> set AVState \<and>
      validate_SecurityModel (posture\<lparr>SecurityModel.av := ''unknown''\<rparr>))"
  by (auto simp: validate_SecurityModel_def literal_def AVState_def)

lemma EndpointHealth_status_closed:
  "validate_EndpointHealth (endpoint\<lparr>EndpointHealth.status := v\<rparr>) =
     (v \<in> set [''up'', ''degraded'', ''down'', ''unknown''] \<and>
      validate_EndpointHealth (endpoint\<lparr>EndpointHealth.status := ''unknown''\<rparr>))"
  by (auto simp: validate_EndpointHealth_def literal_def)

lemma Alert_scope_closed:
  "validate_Alert (alert\<lparr>Alert.scope := v\<rparr>) =
     (v \<in> set [''cpu'', ''ram'', ''storage'', ''network'', ''hardware'', ''gpu'',
          ''processes'', ''services'', ''boot'', ''logs'', ''crash'', ''security'',
          ''virtualization'', ''remote'', ''system''] \<and>
      validate_Alert (alert\<lparr>Alert.scope := ''system''\<rparr>))"
  by (auto simp: validate_Alert_def literal_def)

lemma Alert_severity_closed:
  "validate_Alert (alert\<lparr>Alert.severity := v\<rparr>) =
     (v \<in> set Severity \<and>
      validate_Alert (alert\<lparr>Alert.severity := ''info''\<rparr>))"
  by (auto simp: validate_Alert_def literal_def Severity_def)

lemma HostInfo_os_closed:
  "validate_HostInfo (h\<lparr>HostInfo.os := v\<rparr>) =
     (v \<in> set OSType \<and>
      validate_HostInfo (h\<lparr>HostInfo.os := ''unknown''\<rparr>))"
  by (auto simp: validate_HostInfo_def literal_def OSType_def)

lemma ConnectionStat_status_free:
  "validate_ConnectionStat (conn\<lparr>ConnectionStat.status := free\<rparr>) = validate_ConnectionStat conn"
  by (simp add: validate_ConnectionStat_def)

lemma ContainerStat_state_free:
  "validate_ContainerStat (container\<lparr>ContainerStat.state := free\<rparr>) = validate_ContainerStat container"
  by (simp add: validate_ContainerStat_def)

lemma VMStat_state_free:
  "validate_VMStat (vm\<lparr>VMStat.state := free\<rparr>) = validate_VMStat vm"
  by (simp add: validate_VMStat_def)

text \<open>
  C8, amended. Every field of a \<^verbatim>\<open>Literal\<close> type is a closed enumeration: a value is
  accepted for it exactly when it is one of the listed members (the rest of the record
  being acceptable), and where the field is \<^verbatim>\<open>Optional\<close> (throttle reason, memory
  pressure state, duplex) null is accepted too. The status of a connection and the state
  of a container and of a virtual machine are optional strings with no constraint. The
  enumerations \<^verbatim>\<open>ServiceState\<close>, \<^verbatim>\<open>FirewallState\<close>, \<^verbatim>\<open>AVState\<close>, \<^verbatim>\<open>OSType\<close>,
  \<^verbatim>\<open>IFaceType\<close>, duplex and endpoint status hold \<^verbatim>\<open>unknown\<close>; \<^verbatim>\<open>Protocol\<close>,
  \<^verbatim>\<open>FilesystemType\<close>, throttle reason and crash type hold \<^verbatim>\<open>other\<close>; \<^verbatim>\<open>Severity\<close>,
  the memory pressure state and the alert scope hold neither.
\<close>

theorem categorical_fields_closed:
  "validate_CPUThrottleStatus (thr\<lparr>CPUThrottleStatus.reason := Some v\<rparr>) =
     (v \<in> set [''thermal'', ''power'', ''current'', ''other''] \<and>
      validate_CPUThrottleStatus (thr\<lparr>CPUThrottleStatus.reason := None\<rparr>)) \<and>
   validate_PressureStatus (pres\<lparr>PressureStatus.instant := Some v\<rparr>) =
     (v \<in> set [''normal'', ''elevated'', ''critical''] \<and>
      validate_PressureStatus (pres\<lparr>PressureStatus.instant := None\<rparr>)) \<and>
   validate_DiskPartition (part\<lparr>DiskPartition.fs_type := v\<rparr>) =
     (v \<in> set FilesystemType \<and>
      validate_DiskPartition (part\<lparr>DiskPartition.fs_type := ''other''\<rparr>)) \<and>
   validate_NetworkInterface (iface\<lparr>NetworkInterface.type := v\<rparr>) =
     (v \<in> set IFaceType \<and>
      validate_NetworkInterface (iface\<lparr>NetworkInterface.type := ''unknown''\<rparr>)) \<and>
   validate_NetworkInterface (iface\<lparr>NetworkInterface.duplex := Some v\<rparr>) =
     (v \<in> set [''full'', ''half'', ''unknown''] \<and>
      validate_NetworkInterface (iface\<lparr>NetworkInterface.duplex := None\<rparr>)) \<and>
   validate_ConnectionStat (conn\<lparr>ConnectionStat.protocol := v\<rparr>) =
     (v \<in> set Protocol \<and>
      validate_ConnectionStat (conn\<lparr>ConnectionStat.protocol := ''tcp''\<rparr>)) \<and>
   validate_ServiceStatus (svc\<lparr>ServiceStatus.state := v\<rparr>) =
     (v \<in> set ServiceState \<and>
      validate_ServiceStatus (svc\<lparr>ServiceStatus.state := ''unknown''\<rparr>)) \<and>
   validate_LogEvent (ev\<lparr>LogEvent.severity := v\<rparr>) =
     (v \<in> set Severity \<and>
      validate_LogEvent (ev\<lparr>LogEvent.severity := ''info''\<rparr>)) \<and>
   validate_CrashRecord (crashed\<lparr>CrashRecord.type := v\<rparr>) =
     (v \<in> set [''app_crash'', ''driver_fault'', ''kernal_panic'', ''bsod'', ''other''] \<and>
      validate_CrashRecord (crashed\<lparr>CrashRecord.type := ''other''\<rparr>)) \<and>
   validate_SecurityFinding (finding\<lparr>SecurityFinding.severity := v\<rparr>) =
     (v \<in> set Severity \<and>
      validate_SecurityFinding (finding\<lparr>SecurityFinding.severity := ''info''\<rparr>)) \<and>
   validate_SecurityModel (posture\<lparr>SecurityModel.firewall := v\<rparr>) =
     (v \<in> set FirewallState \<and>
      validate_SecurityModel (posture\<lparr>SecurityModel.firewall := ''unknown''\<rparr>)) \<and>
   validate_SecurityModel (posture\<lparr>SecurityModel.av := v\<rparr>) =
     (v \<in> set AVState \<and>
      validate_SecurityModel (posture\<lparr>SecurityModel.av := ''unknown''\<rparr>)) \<and>
   validate_EndpointHealth (endpoint\<lparr>EndpointHealth.status := v\<rparr>) =
     (v \<in> set [''up'', ''degraded'', ''down'', ''unknown''] \<and>
      validate_EndpointHealth (endpoint\<lparr>EndpointHealth.status := ''unknown''\<rparr>)) \<and>
   validate_Alert (alert\<lparr>Alert.scope := v\<rparr>) =
     (v \<in> set [''cpu'', ''ram'', ''storage'', ''network'', ''hardware'', ''gpu'',
          ''processes'', ''services'', ''boot'', ''logs'', ''crash'', ''security'',
          ''virtualization'', ''remote'', ''system''] \<and>
      validate_Alert (alert\<lparr>Alert.scope := ''system''\<rparr>)) \<and>
   validate_Alert (alert\<lparr>Alert.severity := v\<rparr>) =
     (v \<in> set Severity \<and>
      validate_Alert (alert\<lparr>Alert.severity := ''info''\<rparr>)) \<and>
   validate_HostInfo (h\<lparr>HostInfo.os := v\<rparr>) =
     (v \<in> set OSType \<and>
      validate_HostInfo (h\<lparr>HostInfo.os := ''unknown''\<rparr>)) \<and>
   validate_ConnectionStat (conn\<lparr>ConnectionStat.status := free\<rparr>) = validate_ConnectionStat conn \<and>
   validate_ContainerStat (container\<lparr>ContainerStat.state := free\<rparr>) = validate_ContainerStat container \<and>
   validate_VMStat (vm\<lparr>VMStat.state := free\<rparr>) = validate_VMStat vm \<and>
   ''unknown'' \<in> set ServiceState \<and>
   ''unknown'' \<in> set FirewallState \<and>
   ''unknown'' \<in> set AVState \<and>
   ''unknown'' \<in> set OSType \<and>
   ''unknown'' \<in> set IFaceType \<and>
   ''unknown'' \<in> set [''full'', ''half'', ''unknown''] \<and>
   ''unknown'' \<in> set [''up'', ''degraded'', ''down'', ''unknown''] \<and>
   ''other'' \<in> set Protocol \<and>
   ''other'' \<in> set FilesystemType \<and>
   ''other'' \<in> set [''thermal'', ''power'', ''current'', ''other''] \<and>
   ''other'' \<in> set [''app_crash'', ''driver_fault'', ''kernal_panic'', ''bsod'', ''other''] \<and>
   ''unknown'' \<notin> set Severity \<and>
   ''unknown'' \<notin> set [''normal'', ''elevated'', ''critical''] \<and>
   ''unknown'' \<notin> set [''cpu'', ''ram'', ''storage'', ''network'', ''hardware'', ''gpu'',
          ''processes'', ''services'', ''boot'', ''logs'', ''crash'', ''security'',
          ''virtualization'', ''remote'', ''system''] \<and>
   ''other'' \<notin> set Severity \<and>
   ''other'' \<notin> set [''normal'', ''elevated'', ''critical''] \<and>
   ''other'' \<notin> set [''cpu'', ''ram'', ''storage'', ''network'', ''hardware'', ''gpu'',
          ''processes'', ''services'', ''boot'', ''logs'', ''crash'', ''security'',
          ''virtualization'', ''remote'', ''system'']"
  by (intro conjI
      CPUThrottleStatus_reason_closed PressureStatus_instant_closed
      DiskPartition_fs_type_closed NetworkInterface_type_closed
      NetworkInterface_duplex_closed ConnectionStat_protocol_closed
      ServiceStatus_state_closed LogEvent_severity_closed CrashRecord_type_closed
      SecurityFinding_severity_closed SecurityModel_firewall_closed
      SecurityModel_av_closed EndpointHealth_status_closed Alert_scope_closed
      Alert_severity_closed HostInfo_os_closed ConnectionStat_status_free
      ContainerStat_state_free VMStat_state_free)
    (simp_all add: ServiceState_def FirewallState_def AVState_def OSType_def IFaceType_def Protocol_def FilesystemType_def Severity_def)

subsection \<open>The sampler and validation\<close>

text \<open>
  C9, as the claim states it, fails: the first sample of the sampler, with every
  percentage in [0,100], is appended, yet as a candidate of the contract its dict misses
  the required field \<^verbatim>\<open>usage_total_pct\<close> of the CPU panel and the required field
  \<^verbatim>\<open>host\<close> of the snapshot. It has passed no validation and would pass none.
\<close>

theorem sampler_validates_counterexample:
  "cpu_buf (run init [Sample first_sample]) = [first_sample] \<and>
   in_percent_range (total first_sample) \<and>
   list_all in_percent_range (per_core first_sample) \<and>
   missing_fields CPUModel_required (sampler_dict first_sample) = [''usage_total_pct''] \<and>
   missing_fields SystemHealthSnapShot_required (sampler_dict first_sample) = [''host'']"
  by (simp add: run_def sampler_def deque_append_def init_def connect_def cpu_buf_maxlen_def
      first_sample_def in_percent_range_def missing_fields_def sampler_dict_def
      CPUModel_required_def SystemHealthSnapShot_required_def)

lemma missing_fields_sampler_dict:
  "missing_fields CPUModel_required (sampler_dict c) \<noteq> []"
  "missing_fields SystemHealthSnapShot_required (sampler_dict c) \<noteq> []"
  by (simp_all add: missing_fields_def sampler_dict_def CPUModel_required_def
      SystemHealthSnapShot_required_def)

text \<open>
  C9, amended. The sampler appends every sample it collects as it is: no validation stands
  between collection and append. After any run, the sample of one more sampler
  iteration is in the deque and is what \<^verbatim>\<open>metrics_now\<close> answers, although its dict,
  whatever its readings and however pydantic converts values, is rejected both as a
  \<^verbatim>\<open>CPUModel\<close> and as a \<^verbatim>\<open>SystemHealthSnapShot\<close>.
\<close>

theorem sampler_appends_unvalidated:
  "c \<in> set (cpu_buf (run init (evs @ [Sample c]))) \<and>
   metrics_now (cpu_buf (run init (evs @ [Sample c]))) = Some c \<and>
   model_validate CPUModel_required coerce validate_CPUModel (sampler_dict c) =
     Inl ValidationError \<and>
   model_validate SystemHealthSnapShot_required coerce' validate_SystemHealthSnapShot
     (sampler_dict c) = Inl ValidationError"
proof -
  have lt: "Suc (length (samples evs)) - cpu_buf_maxlen < Suc (length (samples evs))"
    by (simp add: cpu_buf_maxlen_def)
  have buf: "cpu_buf (run init (evs @ [Sample c])) =
      drop (Suc (length (samples evs)) - cpu_buf_maxlen) (samples evs @ [c])"
    by (simp add: cpu_buf_run_init samples_append)
  have ne: "cpu_buf (run init (evs @ [Sample c])) \<noteq> []"
    using lt by (simp only: buf) simp
  have "last (cpu_buf (run init (evs @ [Sample c]))) = last (samples evs @ [c])"
    using lt by (simp only: buf) (simp add: last_drop)
  then have newest: "last (cpu_buf (run init (evs @ [Sample c]))) = c"
    by simp
  then have "c \<in> set (cpu_buf (run init (evs @ [Sample c])))"
    using ne last_in_set by metis
  then show ?thesis
    using ne newest missing_fields_sampler_dict [of c]
    by (simp add: metrics_now_def model_validate_def)
qed

end
